theory Spec2Isabelle
  imports Main
begin

section \<open>llvm-select: version strings and source-archive layout\<close>

text \<open>
  A shallow embedding of \<^verbatim>\<open>llvm-select.py\<close>: the class \<^verbatim>\<open>LLVMVersionDetails\<close>
  (version-string parser, archive extension, archive table, file names and download
  addresses), and the control flow of \<^verbatim>\<open>LLVMBuilder.build\<close> and of the command-line
  entry point as far as their externally visible actions go.

  Conventions of the model:
  \<^item> a Python text string is a \<open>string\<close>; each \<open>char\<close> stands for the code point of the
    same number (0 to 255), so code points above 255 are not represented;
  \<^item> Python integers are unbounded: \<open>int\<close>. The interpreter's optional limit on the
    number of digits accepted by \<^verbatim>\<open>int()\<close> and \<^verbatim>\<open>str()\<close> is not modelled;
  \<^item> an exception that escapes a function is a value \<open>Inl e\<close> of a sum type;
  \<^item> \<^verbatim>\<open>platform.system()\<close> is a parameter \<open>p\<close> of every function that reads it.
\<close>

subsection \<open>Python exceptions, lists and dictionaries\<close>

datatype py_error = IndexError | KeyError | TypeError

text \<open>\<^verbatim>\<open>xs[i]\<close> for a non-negative literal index: IndexError out of range.\<close>

definition py_index :: "'a list \<Rightarrow> nat \<Rightarrow> py_error + 'a" where
  "py_index xs i = (if i < length xs then Inr (xs ! i) else Inl IndexError)"

text \<open>
  A \<^verbatim>\<open>dict\<close> is an association list in insertion order. \<^verbatim>\<open>d[k] = v\<close> replaces the
  value of an existing key in place and appends a new key; \<^verbatim>\<open>d[k]\<close> raises KeyError
  for a missing key.
\<close>

fun dict_set :: "'k \<Rightarrow> 'v \<Rightarrow> ('k \<times> 'v) list \<Rightarrow> ('k \<times> 'v) list" where
  "dict_set k v [] = [(k, v)]"
| "dict_set k v ((k', v') # ps) =
     (if k' = k then (k, v) # ps else (k', v') # dict_set k v ps)"

fun dict_get :: "('k \<times> 'v) list \<Rightarrow> 'k \<Rightarrow> py_error + 'v" where
  "dict_get [] k = Inl KeyError"
| "dict_get ((k', v') # ps) k = (if k' = k then Inr v' else dict_get ps k)"

subsection \<open>The built-ins \<^verbatim>\<open>str.split\<close>, \<^verbatim>\<open>int\<close> and \<^verbatim>\<open>str\<close>\<close>

text \<open>
  \<^verbatim>\<open>s.split(sep)\<close> for a one-character separator: the pieces between the separators,
  always at least one piece (\<^verbatim>\<open>''.split('.') == ['']\<close>).
\<close>

fun split_on :: "char \<Rightarrow> string \<Rightarrow> string list" where
  "split_on c [] = [[]]"
| "split_on c (x # xs) =
     (if x = c then [] # split_on c xs
      else (case split_on c xs of [] \<Rightarrow> [[x]] | w # ws \<Rightarrow> (x # w) # ws))"

text \<open>
  \<^verbatim>\<open>s.strip()\<close> drops the characters of \<^verbatim>\<open>str.isspace\<close> at both ends: below 256,
  the code points 9 to 13, 28 to 32, 133 and 160.
\<close>

definition is_space :: "char \<Rightarrow> bool" where
  "is_space c = (of_char c \<in> {9, 10, 11, 12, 13, 28, 29, 30, 31, 32, 133, 160 :: nat})"

definition strip :: "string \<Rightarrow> string" where
  "strip s = rev (dropWhile is_space (rev (dropWhile is_space s)))"

text \<open>
  \<^verbatim>\<open>int(s)\<close> for a string: surrounding white space is dropped; then an optional sign,
  then decimal digits, where single underscores may stand between two digits. Anything
  else raises ValueError, which is \<open>None\<close> here (the only caller catches it at once).
  The white space that \<^verbatim>\<open>int\<close> drops is narrower than that of \<^verbatim>\<open>strip\<close>: below 256,
  the code points 9 to 13, 32, 133 and 160. The only decimal digits below 256 are
  \<^verbatim>\<open>0\<close> to \<^verbatim>\<open>9\<close>.
\<close>

definition is_int_space :: "char \<Rightarrow> bool" where
  "is_int_space c = (of_char c \<in> {9, 10, 11, 12, 13, 32, 133, 160 :: nat})"

definition int_strip :: "string \<Rightarrow> string" where
  "int_strip s = rev (dropWhile is_int_space (rev (dropWhile is_int_space s)))"

definition is_digit :: "char \<Rightarrow> bool" where
  "is_digit c = (48 \<le> (of_char c :: nat) \<and> (of_char c :: nat) \<le> 57)"

definition digit_val :: "char \<Rightarrow> int" where
  "digit_val c = int (of_char c) - 48"

fun parse_digits :: "int \<Rightarrow> string \<Rightarrow> int option" where
  "parse_digits acc [] = Some acc"
| "parse_digits acc (c # cs) =
     (if is_digit c then parse_digits (acc * 10 + digit_val c) cs
      else if c = CHR ''_'' then
        (case cs of
           [] \<Rightarrow> None
         | d # ds \<Rightarrow> if is_digit d then parse_digits (acc * 10 + digit_val d) ds else None)
      else None)"

definition parse_unsigned :: "string \<Rightarrow> int option" where
  "parse_unsigned s =
     (case s of
        [] \<Rightarrow> None
      | d # ds \<Rightarrow> if is_digit d then parse_digits (digit_val d) ds else None)"

definition py_int :: "string \<Rightarrow> int option" where
  "py_int s =
     (case int_strip s of
        [] \<Rightarrow> None
      | c # cs \<Rightarrow>
          if c = CHR ''+'' then parse_unsigned cs
          else if c = CHR ''-'' then map_option uminus (parse_unsigned cs)
          else parse_unsigned (c # cs))"

text \<open>\<^verbatim>\<open>str(n)\<close> for an integer: decimal digits without leading zeros, \<^verbatim>\<open>-\<close> first
  for a negative number.\<close>

definition digit_char :: "nat \<Rightarrow> char" where
  "digit_char d = ''0123456789'' ! d"

fun digits_of :: "nat \<Rightarrow> string" where
  "digits_of n =
     (if n < 10 then [digit_char n] else digits_of (n div 10) @ [digit_char (n mod 10)])"

declare digits_of.simps [simp del]

definition py_str :: "int \<Rightarrow> string" where
  "py_str n = (if n < 0 then CHR ''-'' # digits_of (nat (- n)) else digits_of (nat n))"

text \<open>The number that a string of digits denotes, read from the left (used to state
  what \<open>parse_digits\<close> computes).\<close>

definition digits_value :: "int \<Rightarrow> string \<Rightarrow> int" where
  "digits_value acc ds = foldl (\<lambda>a c. a * 10 + digit_val c) acc ds"

subsection \<open>\<^verbatim>\<open>class LLVMVersionDetails\<close>\<close>

text \<open>
  The fields of an instance. \<open>revision = None\<close> is Python's \<^verbatim>\<open>None\<close>; in \<open>tarballs\<close>
  a value \<open>None\<close> is an archive that this version and platform do not have.
\<close>

record LLVMVersionDetails =
  major :: int
  minor :: int
  revision :: "int option"
  extension :: string
  tarballs :: "(string \<times> string option) list"

text \<open>\<^verbatim>\<open>__str__\<close>\<close>

definition str_version :: "LLVMVersionDetails \<Rightarrow> string" where
  "str_version self =
     (let s = py_str (major self) @ ''.'' @ py_str (minor self)
      in case revision self of
           None \<Rightarrow> s
         | Some r \<Rightarrow> s @ ''.'' @ py_str r)"

text \<open>\<^verbatim>\<open>_tarballVersionString\<close>\<close>

definition tarballVersionString :: "LLVMVersionDetails \<Rightarrow> string \<Rightarrow> string" where
  "tarballVersionString self tarballName =
     (if tarballName \<in> set [''compiler-rt'', ''libcxx''] \<and> (major self = 3 \<and> minor self = 4)
      then py_str (major self) @ ''.'' @ py_str (minor self)
      else str_version self)"

text \<open>\<^verbatim>\<open>tarballFilename\<close>\<close>

definition tarballFilename :: "LLVMVersionDetails \<Rightarrow> string \<Rightarrow> py_error + string option" where
  "tarballFilename self tarballName =
     (case dict_get (tarballs self) tarballName of
        Inl e \<Rightarrow> Inl e
      | Inr tarball \<Rightarrow>
          (case tarball of
             Some t \<Rightarrow> Inr (Some (t @ ''-'' @ tarballVersionString self tarballName @ extension self))
           | None \<Rightarrow> Inr None))"

text \<open>\<^verbatim>\<open>tarballURL\<close>: concatenating a string with \<^verbatim>\<open>None\<close> would raise TypeError.\<close>

definition tarballURL :: "LLVMVersionDetails \<Rightarrow> string \<Rightarrow> py_error + string option" where
  "tarballURL self tarballName =
     (case dict_get (tarballs self) tarballName of
        Inl e \<Rightarrow> Inl e
      | Inr None \<Rightarrow> Inr None
      | Inr (Some t) \<Rightarrow>
          (case tarballFilename self tarballName of
             Inl e \<Rightarrow> Inl e
           | Inr None \<Rightarrow> Inl TypeError
           | Inr (Some f) \<Rightarrow>
               Inr (Some (''http://llvm.org/releases/'' @ tarballVersionString self tarballName
                           @ ''/'' @ f))))"

text \<open>\<^verbatim>\<open>_determineExtenion\<close> (the source's spelling)\<close>

definition determineExtenion :: "LLVMVersionDetails \<Rightarrow> string" where
  "determineExtenion self =
     (if major self = 2 \<and> minor self > 6 then ''.tgz''
      else if (major self = 2 \<and> minor self = 6) \<or> (major self = 3 \<and> minor self = 0)
        then ''.tar.gz''
      else if major self = 3 \<and> minor self < 5 then ''.src.tar.gz''
      else ''.src.tar.xz'')"

text \<open>\<^verbatim>\<open>_listTarballs\<close>, with the host platform \<open>p\<close>\<close>

definition listTarballs :: "string \<Rightarrow> LLVMVersionDetails \<Rightarrow> (string \<times> string option) list" where
  "listTarballs p self =
     (let t0 = dict_set ''llvm'' (Some ''llvm'') [];
          t1 = (if major self < 3 \<or> (major self = 3 \<and>
                     (minor self < 3 \<or> (minor self = 4 \<and> revision self = None)))
                then dict_set ''clang'' (Some ''clang'') t0
                else dict_set ''clang'' (Some ''cfe'') t0);
          t2 = dict_set ''compiler-rt'' None t1;
          t3 = (if p \<noteq> ''Windows'' \<and> (major self > 3 \<or> (major self = 3 \<and> minor self \<ge> 1))
                then dict_set ''compiler-rt'' (Some ''compiler-rt'') t2
                else t2);
          t4 = dict_set ''libcxx'' None t3;
          t5 = (if p = ''Darwin'' \<and> (major self > 3 \<or> (major self = 3 \<and> minor self \<ge> 3))
                then dict_set ''libcxx'' (Some ''libcxx'') t4
                else t4)
      in t5)"

text \<open>\<^verbatim>\<open>_populateFields\<close> and \<^verbatim>\<open>__init__\<close>. The two derived fields do not exist before
  \<^verbatim>\<open>_populateFields\<close> assigns them, and neither method reads them; they start empty here.\<close>

definition populateFields :: "string \<Rightarrow> LLVMVersionDetails \<Rightarrow> LLVMVersionDetails" where
  "populateFields p self =
     (let self1 = self\<lparr>extension := determineExtenion self\<rparr>
      in self1\<lparr>tarballs := listTarballs p self1\<rparr>)"

definition init :: "string \<Rightarrow> int \<Rightarrow> int \<Rightarrow> int option \<Rightarrow> LLVMVersionDetails" where
  "init p ma mi r =
     populateFields p \<lparr>major = ma, minor = mi, revision = r, extension = [], tarballs = []\<rparr>"

text \<open>
  \<^verbatim>\<open>fromVersionString\<close>. The list comprehension inside \<^verbatim>\<open>try\<close> converts the pieces
  from left to right and gives up at the first that \<^verbatim>\<open>int\<close> refuses; the loop looks
  for a negative component. \<open>Inr None\<close> is the result \<^verbatim>\<open>None\<close>; an exception leaving the
  function would be \<open>Inl\<close>. The reads \<^verbatim>\<open>version[0]\<close>, \<^verbatim>\<open>version[1]\<close> and
  \<^verbatim>\<open>version[2]\<close> are checked reads, all made after the test on the length.
\<close>

fun parse_components :: "string list \<Rightarrow> int list option" where
  "parse_components [] = Some []"
| "parse_components (v # vs) =
     (case py_int v of
        None \<Rightarrow> None
      | Some n \<Rightarrow> (case parse_components vs of None \<Rightarrow> None | Some ns \<Rightarrow> Some (n # ns)))"

fun has_negative :: "int list \<Rightarrow> bool" where
  "has_negative [] = False"
| "has_negative (v # vs) = (if v < 0 then True else has_negative vs)"

definition fromVersionString :: "string \<Rightarrow> string \<Rightarrow> py_error + LLVMVersionDetails option" where
  "fromVersionString p versionString =
     (case parse_components (split_on (CHR ''.'') versionString) of
        None \<Rightarrow> Inr None
      | Some version \<Rightarrow>
          if length version < 2 \<or> length version > 3 then Inr None
          else if has_negative version then Inr None
          else
            (case py_index version 0 of
               Inl e \<Rightarrow> Inl e
             | Inr v0 \<Rightarrow>
            (case py_index version 1 of
               Inl e \<Rightarrow> Inl e
             | Inr v1 \<Rightarrow>
                 if v0 < 2 \<or> (v0 = 2 \<and> v1 < 6) then Inr None
                 else if length version = 3 \<and> (v0 < 3 \<or> (v0 = 3 \<and> v1 < 4)) then Inr None
                 else if length version = 2 \<and> (v0 > 3 \<or> (v0 = 3 \<and> v1 > 4)) then Inr None
                 else if length version = 3 then
                   (case py_index version 2 of
                      Inl e \<Rightarrow> Inl e
                    | Inr v2 \<Rightarrow> Inr (Some (init p v0 v1 (Some v2))))
                 else Inr (Some (init p v0 v1 None)))))"

subsection \<open>The host and the effects of the program\<close>

text \<open>
  What the program reads from its host without changing anything: the platform name, the
  working directory, the path separator, the script's absolute path and the process
  environment; and three library functions that no property below depends on, taken as
  they are: \<^verbatim>\<open>os.path.dirname\<close>, \<^verbatim>\<open>os.path.basename\<close>, and the first group of
  \<^verbatim>\<open>re.match('[0-9]\\..+-(.+)', name)\<close> (\<open>None\<close> when the name does not match).
\<close>

record host =
  platform :: string
  cwd :: string
  os_sep :: string
  script_path :: string
  environ :: "(string \<times> string) list"
  os_path_dirname :: "string \<Rightarrow> string"
  os_path_basename :: "string \<Rightarrow> string"
  re_match_group1 :: "string \<Rightarrow> string option"

text \<open>
  Exceptions. \<open>CommandFailed\<close> is the \<^verbatim>\<open>Exception\<close> that \<^verbatim>\<open>runOrFail\<close> raises, with
  the command and the exit code that its message is built from; \<open>LibraryError\<close> is any
  exception raised inside a library call that touches the system, with the system's
  message; \<open>SystemExit\<close> is \<^verbatim>\<open>sys.exit\<close>, the only one that \<^verbatim>\<open>except Exception\<close>
  does not catch.
\<close>

datatype exn =
    CommandNotAvailableError string
  | CommandFailed "string list" int
  | LibraryError string
  | PyError py_error
  | SystemExit int

text \<open>Library calls that change the system and return nothing the program uses.\<close>

datatype action =
    MakeDirs string
  | Unlink string
  | RmTree string
  | RmTreeChmodOnError string
  | Move string string
  | Copy2 string string
  | WriteFile string string
  | TarOpen string
  | TarExtractAll string
  | TarClose string

text \<open>Library calls that only look: \<^verbatim>\<open>os.path.exists\<close>, \<^verbatim>\<open>lexists\<close>, \<^verbatim>\<open>isdir\<close>
  (they return False rather than raise), \<^verbatim>\<open>glob.glob\<close> and \<^verbatim>\<open>tar.getnames\<close>.\<close>

datatype query = Exists string | LExists string | IsDir string

datatype listing = Glob string | TarGetNames string

text \<open>
  \<^verbatim>\<open>subprocess.Popen\<close> followed by \<^verbatim>\<open>communicate\<close>: the command, the working
  directory and environment when given, whether standard output and error are piped
  (captured), whether standard input is piped, and whether the streams are text.
\<close>

record spawn =
  command :: "string list"
  spawn_cwd :: "string option"
  spawn_env :: "(string \<times> string) list option"
  capture :: bool
  stdin_pipe :: bool
  text_mode :: bool

datatype proc_result = NotStarted string | Exited int string string

text \<open>\<^verbatim>\<open>print\<close> of a string, or of an exception object.\<close>

datatype message = Text string | ExnText exn

text \<open>
  A program is the tree of its interactions: it returns, raises, runs forever, or makes
  one call and goes on according to the answer. For a call that can fail, the answer
  \<open>Inl m\<close> is an exception raised inside the call.
\<close>

datatype 'a prog =
    Done 'a
  | Raise exn
  | Hang
  | Act action "string + unit \<Rightarrow> 'a prog"
  | Ask query "bool \<Rightarrow> 'a prog"
  | Lst listing "string + string list \<Rightarrow> 'a prog"
  | Spawn spawn "proc_result \<Rightarrow> 'a prog"
  | Out message "'a prog"

text \<open>Sequencing, \<^verbatim>\<open>try ... except\<close> and \<^verbatim>\<open>try ... finally\<close>.\<close>

primrec bind :: "'a prog \<Rightarrow> ('a \<Rightarrow> 'b prog) \<Rightarrow> 'b prog" where
  "bind (Done x) f = f x"
| "bind (Raise e) f = Raise e"
| "bind Hang f = Hang"
| "bind (Act a k) f = Act a (\<lambda>r. bind (k r) f)"
| "bind (Ask q k) f = Ask q (\<lambda>r. bind (k r) f)"
| "bind (Lst l k) f = Lst l (\<lambda>r. bind (k r) f)"
| "bind (Spawn s k) f = Spawn s (\<lambda>r. bind (k r) f)"
| "bind (Out s m) f = Out s (bind m f)"

definition seq :: "unit prog \<Rightarrow> 'b prog \<Rightarrow> 'b prog" where
  "seq m n = bind m (\<lambda>_. n)"

primrec catch :: "'a prog \<Rightarrow> (exn \<Rightarrow> 'a prog) \<Rightarrow> 'a prog" where
  "catch (Done x) h = Done x"
| "catch (Raise e) h = h e"
| "catch Hang h = Hang"
| "catch (Act a k) h = Act a (\<lambda>r. catch (k r) h)"
| "catch (Ask q k) h = Ask q (\<lambda>r. catch (k r) h)"
| "catch (Lst l k) h = Lst l (\<lambda>r. catch (k r) h)"
| "catch (Spawn s k) h = Spawn s (\<lambda>r. catch (k r) h)"
| "catch (Out s m) h = Out s (catch m h)"

definition try_finally :: "'a prog \<Rightarrow> unit prog \<Rightarrow> 'a prog" where
  "try_finally m f =
     bind (catch (bind m (\<lambda>x. Done (Inr x))) (\<lambda>e. Done (Inl e)))
       (\<lambda>r. bind f (\<lambda>_. case r of Inl e \<Rightarrow> Raise e | Inr x \<Rightarrow> Done x))"

text \<open>\<^verbatim>\<open>except Exception\<close> lets \<^verbatim>\<open>SystemExit\<close> pass.\<close>

definition is_Exception :: "exn \<Rightarrow> bool" where
  "is_Exception e = (case e of SystemExit n \<Rightarrow> False | _ \<Rightarrow> True)"

definition catch_Exception :: "'a prog \<Rightarrow> (exn \<Rightarrow> 'a prog) \<Rightarrow> 'a prog" where
  "catch_Exception m h = catch m (\<lambda>e. if is_Exception e then h e else Raise e)"

text \<open>A call that raises what the library raises, and a pure step that can raise.\<close>

definition act :: "action \<Rightarrow> unit prog" where
  "act a = Act a (\<lambda>r. case r of Inl m \<Rightarrow> Raise (LibraryError m) | Inr u \<Rightarrow> Done ())"

definition ls :: "listing \<Rightarrow> string list prog" where
  "ls l = Lst l (\<lambda>r. case r of Inl m \<Rightarrow> Raise (LibraryError m) | Inr names \<Rightarrow> Done names)"

definition print :: "string \<Rightarrow> unit prog" where
  "print s = Out (Text s) (Done ())"

definition print_exn :: "exn \<Rightarrow> unit prog" where
  "print_exn e = Out (ExnText e) (Done ())"

definition lift :: "py_error + 'a \<Rightarrow> 'a prog" where
  "lift r = (case r of Inl e \<Rightarrow> Raise (PyError e) | Inr x \<Rightarrow> Done x)"

definition sys_exit :: "int \<Rightarrow> 'a prog" where
  "sys_exit n = Raise (SystemExit n)"

text \<open>
  Running a program against a system. The system answers each call, knowing everything
  that happened before; the run records every call with its answer.
\<close>

datatype event =
    EAct action "string + unit"
  | EAsk query bool
  | ELst listing "string + string list"
  | ESpawn spawn proc_result
  | EOut message

record system =
  act_answer :: "event list \<Rightarrow> action \<Rightarrow> string + unit"
  ask_answer :: "event list \<Rightarrow> query \<Rightarrow> bool"
  lst_answer :: "event list \<Rightarrow> listing \<Rightarrow> string + string list"
  spawn_answer :: "event list \<Rightarrow> spawn \<Rightarrow> proc_result"

datatype 'a outcome = Returned 'a | Raised exn | Hangs

primrec run :: "system \<Rightarrow> 'a prog \<Rightarrow> event list \<Rightarrow> 'a outcome \<times> event list" where
  "run sys (Done x) tr = (Returned x, tr)"
| "run sys (Raise e) tr = (Raised e, tr)"
| "run sys Hang tr = (Hangs, tr)"
| "run sys (Act a k) tr = run sys (k (act_answer sys tr a)) (tr @ [EAct a (act_answer sys tr a)])"
| "run sys (Ask q k) tr = run sys (k (ask_answer sys tr q)) (tr @ [EAsk q (ask_answer sys tr q)])"
| "run sys (Lst l k) tr = run sys (k (lst_answer sys tr l)) (tr @ [ELst l (lst_answer sys tr l)])"
| "run sys (Spawn s k) tr =
     run sys (k (spawn_answer sys tr s)) (tr @ [ESpawn s (spawn_answer sys tr s)])"
| "run sys (Out s m) tr = run sys m (tr @ [EOut s])"

text \<open>The exit status of the process: 0 at the end of the script, the argument of
  \<^verbatim>\<open>sys.exit\<close>, 1 after an uncaught exception; none when the program does not end.\<close>

definition exit_status :: "'a outcome \<Rightarrow> int option" where
  "exit_status r =
     (case r of
        Returned x \<Rightarrow> Some 0
      | Raised e \<Rightarrow> (case e of SystemExit n \<Rightarrow> Some n | _ \<Rightarrow> Some 1)
      | Hangs \<Rightarrow> None)"

text \<open>A side effect is a call that changes the system or starts a process.\<close>

fun is_side_effect :: "event \<Rightarrow> bool" where
  "is_side_effect (EAct a r) = True"
| "is_side_effect (ESpawn s r) = True"
| "is_side_effect (EAsk q r) = False"
| "is_side_effect (ELst l r) = False"
| "is_side_effect (EOut s) = False"

subsection \<open>\<^verbatim>\<open>class Utility\<close>\<close>

text \<open>\<^verbatim>\<open>sep.join(xs)\<close> and \<^verbatim>\<open>d.get(k, default)\<close>\<close>

fun join :: "string \<Rightarrow> string list \<Rightarrow> string" where
  "join s [] = []"
| "join s [x] = x"
| "join s (x # y # ys) = x @ s @ join s (y # ys)"

definition dict_get_default :: "('k \<times> 'v) list \<Rightarrow> 'k \<Rightarrow> 'v \<Rightarrow> 'v" where
  "dict_get_default d k dflt = (case dict_get d k of Inl e \<Rightarrow> dflt | Inr v \<Rightarrow> v)"

text \<open>\<^verbatim>\<open>commandSucceeded\<close>: the bare \<^verbatim>\<open>except\<close> turns every failure into False.\<close>

definition commandSucceeded :: "string list \<Rightarrow> bool prog" where
  "commandSucceeded cmd =
     Spawn \<lparr>command = cmd, spawn_cwd = None, spawn_env = None, capture = True,
            stdin_pipe = False, text_mode = False\<rparr>
       (\<lambda>r. case r of
              NotStarted m \<Rightarrow> Done False
            | Exited returncode out err \<Rightarrow> Done (if returncode = 0 then True else False))"

text \<open>\<^verbatim>\<open>runOrFail\<close> (no caller passes \<^verbatim>\<open>input\<close>)\<close>

definition runOrFail ::
  "string list \<Rightarrow> string option \<Rightarrow> (string \<times> string) list option \<Rightarrow> bool \<Rightarrow> bool \<Rightarrow> unit prog" where
  "runOrFail cmd dir env showOutput suppressOutputOnError =
     Spawn \<lparr>command = cmd, spawn_cwd = dir, spawn_env = env, capture = (showOutput = False),
            stdin_pipe = True, text_mode = True\<rparr>
       (\<lambda>r. case r of
              NotStarted m \<Rightarrow> Raise (LibraryError m)
            | Exited returncode out err \<Rightarrow>
                if returncode \<noteq> 0 then
                  seq (if showOutput = False \<and> suppressOutputOnError = False
                       then seq (print out) (print err) else Done ())
                      (Raise (CommandFailed cmd returncode))
                else Done ())"

text \<open>\<^verbatim>\<open>errorIfNotAvailable\<close>\<close>

definition errorIfNotAvailable :: "string \<Rightarrow> string \<Rightarrow> unit prog" where
  "errorIfNotAvailable cmd versionFlag =
     bind (commandSucceeded [cmd, versionFlag])
       (\<lambda>ok. if ok = False then Raise (CommandNotAvailableError cmd) else Done ())"

text \<open>\<^verbatim>\<open>_rmtree\<close>: \<^verbatim>\<open>shutil.rmtree\<close> with the handler that makes a path writable and
  tries again, as one action.\<close>

definition rmtree :: "string \<Rightarrow> unit prog" where
  "rmtree root = Ask (Exists root) (\<lambda>e. if e then act (RmTreeChmodOnError root) else Done ())"

text \<open>\<^verbatim>\<open>removeIfExists\<close>\<close>

definition removeIfExists :: "host \<Rightarrow> string \<Rightarrow> unit prog" where
  "removeIfExists h item =
     Ask (LExists item) (\<lambda>e.
       if e then
         Ask (IsDir item) (\<lambda>d.
           if d then (if platform h = ''Windows'' then rmtree item else act (RmTree item))
           else act (Unlink item))
       else Done ())"

subsection \<open>\<^verbatim>\<open>class LLVMBuilder\<close>\<close>

definition CmakeBuildTypes :: "string list" where
  "CmakeBuildTypes = [''Release'', ''Debug'', ''RelWithDebInfo'', ''MinSizeRel'']"

text \<open>\<^verbatim>\<open>cleanupFiles\<close>: the loop over the keys of the archive table.\<close>

fun cleanupFiles_loop :: "host \<Rightarrow> LLVMVersionDetails \<Rightarrow> string list \<Rightarrow> unit prog" where
  "cleanupFiles_loop h version [] = Done ()"
| "cleanupFiles_loop h version (tarballName # rest) =
     bind (lift (tarballFilename version tarballName)) (\<lambda>tarball.
       seq (case tarball of
              Some t \<Rightarrow>
                seq (removeIfExists h (cwd h @ ''/'' @ t))
                    (removeIfExists h (cwd h @ ''/'' @ tarballName @ ''-src''))
            | None \<Rightarrow> Done ())
           (cleanupFiles_loop h version rest))"

definition cleanupFiles :: "host \<Rightarrow> LLVMVersionDetails \<Rightarrow> unit prog" where
  "cleanupFiles h version = cleanupFiles_loop h version (map fst (tarballs version))"

text \<open>
  \<^verbatim>\<open>_downloadAndUnpackTarball\<close>. The loop that climbs to the top-level directory of the
  archive ends only when \<^verbatim>\<open>os.path.dirname\<close> reaches the empty string.
\<close>

partial_function (option) top_level_dir :: "(string \<Rightarrow> string) \<Rightarrow> string \<Rightarrow> string option" where
  "top_level_dir dirname rootDir =
     (if dirname rootDir \<noteq> [] then top_level_dir dirname (dirname rootDir) else Some rootDir)"

declare top_level_dir.simps [code]

definition downloadAndUnpackTarball ::
  "host \<Rightarrow> LLVMVersionDetails \<Rightarrow> string \<Rightarrow> string \<Rightarrow> bool \<Rightarrow> bool \<Rightarrow> unit prog" where
  "downloadAndUnpackTarball h version tarballName destinationDir cleanup showProgress =
     bind (lift (tarballURL version tarballName)) (\<lambda>url.
     bind (lift (tarballFilename version tarballName)) (\<lambda>name.
       case name of
         None \<Rightarrow> Raise (PyError TypeError)
       | Some f \<Rightarrow>
       (case url of
         None \<Rightarrow> Raise (PyError TypeError)
       | Some u \<Rightarrow>
           (let filename = cwd h @ ''/'' @ f in
            seq (runOrFail [''curl'', ''-f'', u, ''-o'', filename] None None showProgress False)
           (seq (if platform h = ''Windows'' then
                   seq (act (TarOpen filename))
                     (try_finally
                        (bind (ls (TarGetNames filename)) (\<lambda>names.
                         bind (lift (py_index names 0)) (\<lambda>first.
                           case top_level_dir (os_path_dirname h) first of
                             None \<Rightarrow> Hang
                           | Some rootDir \<Rightarrow>
                               seq (act (TarExtractAll filename))
                                   (act (Move (cwd h @ ''/'' @ rootDir) destinationDir)))))
                        (act (TarClose filename)))
                 else
                   seq (act (MakeDirs destinationDir))
                       (runOrFail [''tar'', ''-xvf'', filename, ''-C'', destinationDir,
                                   ''--strip-components=1''] None None False False))
                (if cleanup = True then act (Unlink filename) else Done ()))))))"

text \<open>\<^verbatim>\<open>verifyBuildPrerequisitesMet\<close>\<close>

definition verifyBuildPrerequisitesMet :: "host \<Rightarrow> unit prog" where
  "verifyBuildPrerequisitesMet h =
     seq (errorIfNotAvailable ''curl'' ''--version'')
    (seq (errorIfNotAvailable ''cmake'' ''--version'')
         (if platform h \<noteq> ''Windows'' then errorIfNotAvailable ''tar'' ''--version''
          else Done ()))"

text \<open>\<^verbatim>\<open>download\<close>\<close>

fun download_loop :: "host \<Rightarrow> LLVMVersionDetails \<Rightarrow> bool \<Rightarrow> string list \<Rightarrow> unit prog" where
  "download_loop h version showProgress [] = Done ()"
| "download_loop h version showProgress (tarballName # rest) =
     bind (lift (dict_get (tarballs version) tarballName)) (\<lambda>tarball.
       seq (if tarball \<noteq> None then
              downloadAndUnpackTarball h version tarballName
                (cwd h @ ''/'' @ tarballName @ ''-src'') True showProgress
            else Done ())
           (download_loop h version showProgress rest))"

definition download :: "host \<Rightarrow> LLVMVersionDetails \<Rightarrow> bool \<Rightarrow> unit prog" where
  "download h version showProgress =
     seq (download_loop h version showProgress (map fst (tarballs version)))
    (seq (act (Move (cwd h @ ''/clang-src'') (cwd h @ ''/llvm-src/tools/clang'')))
    (bind (lift (dict_get (tarballs version) ''compiler-rt'')) (\<lambda>rt.
     seq (if rt \<noteq> None then
            act (Move (cwd h @ ''/compiler-rt-src'') (cwd h @ ''/llvm-src/projects/compiler-rt''))
          else Done ())
    (bind (lift (dict_get (tarballs version) ''libcxx'')) (\<lambda>cxx.
       if cxx \<noteq> None then
         act (Move (cwd h @ ''/libcxx-src'') (cwd h @ ''/llvm-src/projects/libcxx''))
       else Done ())))))"

text \<open>
  \<^verbatim>\<open>build\<close>, in the order of its statements. The four parts that depend on the
  platform are written out first: the choice of the generator, the test for Windows with
  MinGW (\<^verbatim>\<open>platform.system() == 'Windows' and Utility.commandSucceeded(['g++', '-v']) == True\<close>,
  where \<^verbatim>\<open>and\<close> does not probe on other platforms), the separate build of the
  table generators, and the copy of the runtime library.
\<close>

definition build_generator :: "host \<Rightarrow> string prog" where
  "build_generator h =
     bind (if platform h \<noteq> ''Windows'' then commandSucceeded [''ninja'', ''--version'']
           else Done False) (\<lambda>ninja.
       if ninja = True then Done ''Ninja''
       else
         bind (if platform h = ''Windows''
               then bind (commandSucceeded [''g++'', ''-v'']) (\<lambda>ok. Done (ok = False))
               else Done False) (\<lambda>nmake.
           if nmake then Done ''NMake Makefiles'' else Done ''Unix Makefiles''))"

definition windows_with_mingw :: "host \<Rightarrow> bool prog" where
  "windows_with_mingw h =
     (if platform h = ''Windows''
      then bind (commandSucceeded [''g++'', ''-v'']) (\<lambda>ok. Done (ok = True))
      else Done False)"

definition build_tblgen :: "host \<Rightarrow> string \<Rightarrow> string \<Rightarrow> bool \<Rightarrow> string list prog" where
  "build_tblgen h buildType cmakeGenerator showProgress =
     (let buildDirTG = cwd h @ ''/llvm-src/build-tblgen'' in
      seq (act (MakeDirs buildDirTG))
     (let env0 = environ h;
          env1 = dict_set ''LDFLAGS''
                   (dict_get_default env0 ''LDFLAGS'' [] @ '' -static-libgcc -static-libstdc++'')
                   env0;
          env2 = dict_set ''CXXFLAGS''
                   (dict_get_default env1 ''CXXFLAGS'' [] @ '' -static-libgcc -static-libstdc++'')
                   env1;
          env3 = dict_set ''CFLAGS''
                   (dict_get_default env2 ''CFLAGS'' [] @ '' -static-libgcc'') env2 in
      seq (runOrFail [''cmake'', ''-DCMAKE_BUILD_TYPE='' @ buildType,
                      ''-DLLVM_INCLUDE_TESTS=false'', ''-G'', cmakeGenerator, ''..'']
             (Some buildDirTG) (Some env3) showProgress False)
     (seq (runOrFail [''cmake'', ''--build'', ''.'', ''--target'', ''llvm-tblgen'']
             (Some buildDirTG) None showProgress False)
     (seq (runOrFail [''cmake'', ''--build'', ''.'', ''--target'', ''clang-tblgen'']
             (Some buildDirTG) None showProgress False)
          (Done [''-DLLVM_TABLEGEN='' @ buildDirTG @ ''/bin/llvm-tblgen.exe'',
                 ''-DCLANG_TABLEGEN='' @ buildDirTG @ ''/bin/clang-tblgen.exe''])))))"

definition build_copy_libstdcpp :: "host \<Rightarrow> string \<Rightarrow> unit prog" where
  "build_copy_libstdcpp h installDir =
     Spawn \<lparr>command = [''where'', ''g++''], spawn_cwd = None, spawn_env = None,
            capture = True, stdin_pipe = False, text_mode = True\<rparr>
       (\<lambda>r. case r of
              NotStarted m \<Rightarrow> Raise (LibraryError m)
            | Exited returncode out err \<Rightarrow>
                (let dllPath = os_path_dirname h (strip out) @ ''/libstdc++-6.dll'' in
                 Ask (Exists dllPath) (\<lambda>e.
                   if e then act (Copy2 dllPath (installDir @ ''/bin/libstdc++-6.dll''))
                   else Done ())))"

definition build ::
  "host \<Rightarrow> LLVMVersionDetails \<Rightarrow> string \<Rightarrow> string \<Rightarrow> bool \<Rightarrow> bool \<Rightarrow> string prog" where
  "build h version buildType installationRoot showProgress cleanup =
     (let buildDir = cwd h @ ''/llvm-src/build'';
          installDir = installationRoot @ os_sep h @ str_version version @ ''-'' @ buildType in
      seq (act (MakeDirs buildDir))
     (bind (build_generator h) (\<lambda>cmakeGenerator.
      bind (bind (windows_with_mingw h) (\<lambda>mingw.
              if mingw then build_tblgen h buildType cmakeGenerator showProgress
              else Done [])) (\<lambda>extraCmakeFlags.
      seq (runOrFail ([''cmake'', ''-DCMAKE_INSTALL_PREFIX='' @ installDir,
                       ''-DCMAKE_BUILD_TYPE='' @ buildType, ''-DLLVM_ENABLE_EH=true'',
                       ''-DLLVM_ENABLE_RTTI=true'', ''-DLLVM_INCLUDE_TESTS=false'']
                      @ extraCmakeFlags @ [''-G'', cmakeGenerator, ''..''])
             (Some buildDir) None showProgress False)
     (seq (runOrFail [''cmake'', ''--build'', ''.''] (Some buildDir) None showProgress False)
     (seq (runOrFail [''cmake'', ''--build'', ''.'', ''--target'', ''install'']
             (Some buildDir) None showProgress False)
     (seq (bind (windows_with_mingw h) (\<lambda>mingw.
             if mingw then build_copy_libstdcpp h installDir else Done ()))
     (seq (if cleanup = True then cleanupFiles h version else Done ())
          (Done installDir)))))))))"

subsection \<open>\<^verbatim>\<open>class LLVMSelect\<close>\<close>

definition getInstallationDir :: "host \<Rightarrow> string" where
  "getInstallationDir h =
     (if platform h = ''Windows''
      then os_path_dirname h (os_path_dirname h (script_path h)) @ [CHR 0x5C] @ ''versions''
      else ''/usr/local/llvm'')"

fun getInstalledVersions_loop :: "host \<Rightarrow> string list \<Rightarrow> string list \<Rightarrow> string list prog" where
  "getInstalledVersions_loop h [] versions = Done versions"
| "getInstalledVersions_loop h (item # rest) versions =
     (let itemName = os_path_basename h item;
          match = re_match_group1 h itemName in
      Ask (IsDir item) (\<lambda>d.
        getInstalledVersions_loop h rest
          (if d \<and> (case match of None \<Rightarrow> False | Some g \<Rightarrow> g \<in> set CmakeBuildTypes)
           then versions @ [itemName] else versions)))"

definition getInstalledVersions :: "host \<Rightarrow> string list prog" where
  "getInstalledVersions h =
     bind (ls (Glob (getInstallationDir h @ ''/*''))) (\<lambda>items.
       getInstalledVersions_loop h items [])"

definition removeLibraryVersion :: "host \<Rightarrow> string \<Rightarrow> string \<Rightarrow> unit prog" where
  "removeLibraryVersion h llvmVersion buildType =
     (let libraryDir = getInstallationDir h @ os_sep h @ llvmVersion @ ''-'' @ buildType in
      seq (act (RmTree libraryDir)) (print (''Removed `'' @ libraryDir @ ''`.'')))"

text \<open>\<^verbatim>\<open>setActiveLibraryVersion\<close>; \<^verbatim>\<open>putFileContents\<close> (open, write, close) is one action.\<close>

definition setActiveLibraryVersion :: "host \<Rightarrow> string \<Rightarrow> string \<Rightarrow> unit prog" where
  "setActiveLibraryVersion h llvmVersion buildType =
     (if platform h = ''Windows'' then
        (let versionsRoot = getInstallationDir h;
             exeLocation = versionsRoot @ [CHR 0x5C] @ llvmVersion @ ''-'' @ buildType
                           @ [CHR 0x5C] @ ''bin'' @ [CHR 0x5C] @ ''llvm-config.exe'';
             batLocation = os_path_dirname h versionsRoot
                           @ [CHR 0x5C] @ ''bin'' @ [CHR 0x5C] @ ''llvm-config.cmd'' in
         seq (act (WriteFile batLocation
                     (''@echo off'' @ [CHR 0x0A, CHR 0x22] @ exeLocation @ [CHR 0x22] @ '' %*'')))
             (print (''Set llvm-config to point to `'' @ exeLocation @ ''`.'')))
      else
        (let llvmConfigPath = getInstallationDir h @ ''/'' @ llvmVersion @ ''-'' @ buildType
                              @ ''/bin/llvm-config'';
             symlinkPath = ''/usr/local/bin/llvm-config'' in
         seq (removeIfExists h symlinkPath)
        (seq (runOrFail [''ln'', ''-s'', llvmConfigPath, symlinkPath] None None False False)
             (print (''Set llvm-config to point to `'' @ llvmConfigPath @ ''`.'')))))"

subsection \<open>The command-line entry point\<close>

text \<open>The namespace that \<^verbatim>\<open>parser.parse_args()\<close> returns; the parsing of the command
  line itself is \<^verbatim>\<open>argparse\<close>'s and is not modelled.\<close>

record args =
  opt_list :: bool
  opt_remove :: bool
  opt_install :: bool
  opt_no_cleanup :: bool
  arg_version :: string
  arg_buildtype :: string

text \<open>
  The body of \<^verbatim>\<open>if __name__ == '__main__'\<close> after \<^verbatim>\<open>parse_args\<close>. In the three
  branches that use the version, it is never \<^verbatim>\<open>None\<close>: the script has left before.
\<close>

definition main :: "host \<Rightarrow> args \<Rightarrow> unit prog" where
  "main h a =
     seq (if arg_buildtype a \<notin> set CmakeBuildTypes then
            seq (print (''Error: invalid build type '' @ [CHR 0x22] @ arg_buildtype a @ [CHR 0x22]))
           (seq (print (''Valid build types: '' @ join '', '' CmakeBuildTypes))
                (sys_exit 1))
          else Done ())
    (bind (lift (fromVersionString (platform h) (arg_version a))) (\<lambda>version.
     seq (if opt_list a = False \<and> arg_version a = [] then
            seq (print ''Error: you must specify an LLVM version.'') (sys_exit 1)
          else if opt_list a = False \<and> version = None then
            seq (print (''Error: unsupported LLVM version '' @ [CHR 0x22] @ arg_version a
                        @ [CHR 0x22] @ ''.''))
                (sys_exit 1)
          else Done ())
    (if opt_list a = True then
       bind (getInstalledVersions h) (\<lambda>versions.
         if length versions > 0 then
           seq (print ''Installed library versions:'') (print (join [CHR 0x0A] versions))
         else print ''There are no library versions currently installed.'')
     else
       (case version of
          None \<Rightarrow> Raise (PyError TypeError)
        | Some v \<Rightarrow>
            if opt_remove a = True then
              catch_Exception (removeLibraryVersion h (str_version v) (arg_buildtype a))
                (\<lambda>e. seq (print_exn e)
                     (seq (print ''Error: failed to remove the specified library version.'')
                          (sys_exit 1)))
            else if opt_install a = True then
              try_finally
                (catch
                   (seq (verifyBuildPrerequisitesMet h)
                   (seq (download h v True)
                   (bind (build h v (arg_buildtype a) (getInstallationDir h) True
                            (opt_no_cleanup a = False)) (\<lambda>installDir.
                      print (''Library installed to: '' @ installDir)))))
                   (\<lambda>e. case e of
                          CommandNotAvailableError c \<Rightarrow>
                            seq (print (''Error: '' @ c @ '' is required for the build process.''))
                           (seq (print (''Please ensure '' @ c
                                        @ '' is installed and available in the system PATH.''))
                                (sys_exit 1))
                        | _ \<Rightarrow> seq (print_exn e) (sys_exit 1)))
                (if opt_no_cleanup a = False then cleanupFiles h v else Done ())
            else
              bind (getInstalledVersions h) (\<lambda>installed.
                seq (if (str_version v @ ''-'' @ arg_buildtype a) \<notin> set installed then
                       seq (print ''Error: the specified library version is not currently installed.'')
                           (sys_exit 1)
                     else Done ())
                    (catch_Exception
                       (setActiveLibraryVersion h (str_version v) (arg_buildtype a))
                       (\<lambda>e. seq (print_exn e) (sys_exit 1))))))))"

subsection \<open>Vocabulary of the specification\<close>

text \<open>
  The integer components of an input: its pieces between the dots, when \<^verbatim>\<open>int\<close> accepts
  every one of them. An input is accepted when the parser returns a version object.
\<close>

definition components :: "string \<Rightarrow> int list option" where
  "components s = parse_components (split_on (CHR ''.'') s)"

definition accepts :: "string \<Rightarrow> string \<Rightarrow> bool" where
  "accepts p s = (case fromVersionString p s of Inr (Some v) \<Rightarrow> True | _ \<Rightarrow> False)"

text \<open>
  The order of versions: by major, then minor, then revision, where an absent revision
  is below every present one.
\<close>

fun rev_less :: "int option \<Rightarrow> int option \<Rightarrow> bool" where
  "rev_less None None = False"
| "rev_less None (Some y) = True"
| "rev_less (Some x) None = False"
| "rev_less (Some x) (Some y) = (x < y)"

definition ver_less :: "int \<times> int \<times> int option \<Rightarrow> int \<times> int \<times> int option \<Rightarrow> bool" where
  "ver_less x y =
     (case x of (a, b, r) \<Rightarrow> case y of (a', b', r') \<Rightarrow>
        a < a' \<or> (a = a' \<and> (b < b' \<or> (b = b' \<and> rev_less r r'))))"

definition ver_le :: "int \<times> int \<times> int option \<Rightarrow> int \<times> int \<times> int option \<Rightarrow> bool" where
  "ver_le x y = (\<not> ver_less y x)"

definition version_of :: "LLVMVersionDetails \<Rightarrow> int \<times> int \<times> int option" where
  "version_of v = (major v, minor v, revision v)"

text \<open>
  The acceptance condition in the specification's words: two or three integer
  components, none negative, the version at least 2.6, and the two-component form only
  up to 3.4.
\<close>

definition claimed_accepts :: "string \<Rightarrow> bool" where
  "claimed_accepts s =
     (case components s of
        Some [a, b] \<Rightarrow>
          0 \<le> a \<and> 0 \<le> b \<and> ver_le (2, 6, None) (a, b, None) \<and> ver_le (a, b, None) (3, 4, None)
      | Some [a, b, c] \<Rightarrow>
          0 \<le> a \<and> 0 \<le> b \<and> 0 \<le> c \<and> ver_le (2, 6, None) (a, b, Some c)
      | _ \<Rightarrow> False)"

text \<open>The same condition with the rule for the three-component form added: only from
  3.4.1 on.\<close>

definition amended_accepts :: "string \<Rightarrow> bool" where
  "amended_accepts s =
     (case components s of
        Some [a, b] \<Rightarrow>
          0 \<le> a \<and> 0 \<le> b \<and> ver_le (2, 6, None) (a, b, None) \<and> ver_le (a, b, None) (3, 4, None)
      | Some [a, b, c] \<Rightarrow>
          0 \<le> a \<and> 0 \<le> b \<and> 0 \<le> c \<and> ver_le (2, 6, None) (a, b, Some c)
          \<and> ver_le (3, 4, Some 1) (a, b, Some c)
      | _ \<Rightarrow> False)"

text \<open>An archive role is present when the table holds a base name for it, absent when
  it holds \<^verbatim>\<open>None\<close>.\<close>

definition role_present :: "LLVMVersionDetails \<Rightarrow> string \<Rightarrow> bool" where
  "role_present v name = (case dict_get (tarballs v) name of Inr (Some b) \<Rightarrow> True | _ \<Rightarrow> False)"

definition role_absent :: "LLVMVersionDetails \<Rightarrow> string \<Rightarrow> bool" where
  "role_absent v name = (dict_get (tarballs v) name = Inr None)"

text \<open>The canonical string of a version in the specification's words: major.minor when
  the revision is absent, else major.minor.revision, each number in decimal.\<close>

definition canonical_string :: "LLVMVersionDetails \<Rightarrow> string" where
  "canonical_string v =
     (case revision v of
        None \<Rightarrow> py_str (major v) @ ''.'' @ py_str (minor v)
      | Some r \<Rightarrow> py_str (major v) @ ''.'' @ py_str (minor v) @ ''.'' @ py_str r)"

text \<open>The version string of a role in the specification's words: the canonical string,
  except \<^verbatim>\<open>3.4\<close> for compiler-rt and libcxx in the 3.4 series.\<close>

definition role_version_string :: "LLVMVersionDetails \<Rightarrow> string \<Rightarrow> string" where
  "role_version_string v name =
     (if major v = 3 \<and> minor v = 4 \<and> (name = ''compiler-rt'' \<or> name = ''libcxx'')
      then ''3.4'' else canonical_string v)"

subsection \<open>A host and a system for concrete runs\<close>

text \<open>A Linux host, and a system on which every call succeeds, every command exits with
  status 0, no path exists and every listing is empty.\<close>

definition linux_host :: host where
  "linux_host =
     \<lparr>platform = ''Linux'', cwd = ''/work'', os_sep = ''/'',
      script_path = ''/opt/llvm-select/llvm-select.py'', environ = [],
      os_path_dirname = (\<lambda>s. []), os_path_basename = (\<lambda>s. s),
      re_match_group1 = (\<lambda>s. None)\<rparr>"

definition willing_system :: system where
  "willing_system =
     \<lparr>act_answer = (\<lambda>tr a. Inr ()), ask_answer = (\<lambda>tr q. False),
      lst_answer = (\<lambda>tr l. Inr []), spawn_answer = (\<lambda>tr s. Exited 0 [] [])\<rparr>"

section \<open>Properties\<close>

subsection \<open>Evaluation and the shape of the parser's result\<close>

lemmas eval_simps = components_def fromVersionString_def py_int_def int_strip_def is_int_space_def
  parse_unsigned_def is_digit_def digit_val_def py_index_def accepts_def

lemmas init_simps = init_def populateFields_def determineExtenion_def listTarballs_def

lemmas ver_simps = ver_le_def ver_less_def version_of_def

lemma fromVersionString_two:
  "components s = Some [a, b] \<Longrightarrow>
   fromVersionString p s =
     (if a < 0 \<or> b < 0 \<or> a < 2 \<or> (a = 2 \<and> b < 6) \<or> a > 3 \<or> (a = 3 \<and> b > 4)
      then Inr None else Inr (Some (init p a b None)))"
  by (simp add: components_def fromVersionString_def py_index_def)

lemma fromVersionString_three:
  "components s = Some [a, b, c] \<Longrightarrow>
   fromVersionString p s =
     (if a < 0 \<or> b < 0 \<or> c < 0 \<or> a < 3 \<or> (a = 3 \<and> b < 4)
      then Inr None else Inr (Some (init p a b (Some c))))"
  by (auto simp add: components_def fromVersionString_def py_index_def)

lemma list_len_2_3:
  "\<not> (length (xs :: 'a list) < 2 \<or> length xs > 3) \<Longrightarrow>
     (\<exists>a b. xs = [a, b]) \<or> (\<exists>a b c. xs = [a, b, c])"
proof -
  assume "\<not> (length xs < 2 \<or> length xs > 3)"
  then have "length xs = 2 \<or> length xs = 3" by arith
  then show ?thesis
  proof
    assume "length xs = 2"
    then show ?thesis by (cases xs; cases "tl xs"; cases "tl (tl xs)") auto
  next
    assume "length xs = 3"
    then show ?thesis
      by (cases xs; cases "tl xs"; cases "tl (tl xs)"; cases "tl (tl (tl xs))") auto
  qed
qed

lemma fromVersionString_other:
  "components s = None \<or> (\<exists>xs. components s = Some xs \<and> length xs \<noteq> 2 \<and> length xs \<noteq> 3) \<Longrightarrow>
   fromVersionString p s = Inr None"
  by (auto simp add: components_def fromVersionString_def)

lemma components_shape:
  obtains (two) a b where "components s = Some [a, b]"
  | (three) a b c where "components s = Some [a, b, c]"
  | (other) "components s = None \<or>
             (\<exists>xs. components s = Some xs \<and> length xs \<noteq> 2 \<and> length xs \<noteq> 3)"
proof (cases "components s")
  case None
  then show ?thesis using other by simp
next
  case (Some xs)
  show ?thesis
  proof (cases "length xs < 2 \<or> length xs > 3")
    case True
    then have "length xs \<noteq> 2 \<and> length xs \<noteq> 3" by arith
    with Some show ?thesis using other by simp
  next
    case False
    from list_len_2_3 [OF False] Some two three show ?thesis by auto
  qed
qed

lemma dict_get_set: "dict_get (dict_set k v d) k' = (if k' = k then Inr v else dict_get d k')"
  by (induction d) auto

lemma init_fields:
  "major (init p a b r) = a" "minor (init p a b r) = b" "revision (init p a b r) = r"
  by (simp_all add: init_def populateFields_def)

lemma init_extension:
  "extension (init p a b r) =
     (if a = 2 \<and> b > 6 then ''.tgz''
      else if (a = 2 \<and> b = 6) \<or> (a = 3 \<and> b = 0) then ''.tar.gz''
      else if a = 3 \<and> b < 5 then ''.src.tar.gz'' else ''.src.tar.xz'')"
  by (simp add: init_def populateFields_def determineExtenion_def)

lemma init_clang:
  "dict_get (tarballs (init p a b r)) ''clang'' =
     Inr (Some (if a < 3 \<or> (a = 3 \<and> (b < 3 \<or> (b = 4 \<and> r = None))) then ''clang'' else ''cfe''))"
  by (simp add: init_def populateFields_def listTarballs_def Let_def dict_get_set)

lemma init_compiler_rt:
  "dict_get (tarballs (init p a b r)) ''compiler-rt'' =
     Inr (if p \<noteq> ''Windows'' \<and> (a > 3 \<or> (a = 3 \<and> b \<ge> 1)) then Some ''compiler-rt'' else None)"
  by (simp add: init_def populateFields_def listTarballs_def Let_def dict_get_set)

lemma init_libcxx:
  "dict_get (tarballs (init p a b r)) ''libcxx'' =
     Inr (if p = ''Darwin'' \<and> (a > 3 \<or> (a = 3 \<and> b \<ge> 3)) then Some ''libcxx'' else None)"
  by (simp add: init_def populateFields_def listTarballs_def Let_def dict_get_set)

lemma init_tarballs:
  "tarballs (init p a b r) =
     [(''llvm'', Some ''llvm''),
      (''clang'', Some (if a < 3 \<or> (a = 3 \<and> (b < 3 \<or> (b = 4 \<and> r = None)))
                        then ''clang'' else ''cfe'')),
      (''compiler-rt'', if p \<noteq> ''Windows'' \<and> (a > 3 \<or> (a = 3 \<and> b \<ge> 1))
                        then Some ''compiler-rt'' else None),
      (''libcxx'', if p = ''Darwin'' \<and> (a > 3 \<or> (a = 3 \<and> b \<ge> 3))
                        then Some ''libcxx'' else None)]"
  by (auto simp add: init_def populateFields_def listTarballs_def Let_def)

lemma fromVersionString_Some:
  assumes "fromVersionString p s = Inr (Some v)"
  shows "(\<exists>a b. components s = Some [a, b] \<and> v = init p a b None \<and> 0 \<le> a \<and> 0 \<le> b
            \<and> \<not> (a < 2 \<or> (a = 2 \<and> b < 6)) \<and> \<not> (a > 3 \<or> (a = 3 \<and> b > 4)))
       \<or> (\<exists>a b c. components s = Some [a, b, c] \<and> v = init p a b (Some c) \<and> 0 \<le> a \<and> 0 \<le> b
            \<and> 0 \<le> c \<and> \<not> (a < 3 \<or> (a = 3 \<and> b < 4)))"
proof (cases s rule: components_shape)
  case two
  with assms show ?thesis
    by (auto simp: fromVersionString_two split: if_splits)
next
  case three
  with assms show ?thesis
    by (auto simp: fromVersionString_three split: if_splits)
next
  case other
  from fromVersionString_other [OF other, of p] assms show ?thesis by simp
qed

lemma parsed_cases:
  assumes "fromVersionString p s = Inr (Some v)"
  obtains a b r where "v = init p a b r" "0 \<le> a" "0 \<le> b" "\<not> (a < 2 \<or> (a = 2 \<and> b < 6))"
    "r = None \<longrightarrow> \<not> (a > 3 \<or> (a = 3 \<and> b > 4))"
    "\<forall>c. r = Some c \<longrightarrow> 0 \<le> c \<and> \<not> (a < 3 \<or> (a = 3 \<and> b < 4))"
  using fromVersionString_Some [OF assms] by auto

lemma parse_components_length: "parse_components xs = Some ys \<Longrightarrow> length ys = length xs"
  by (induction xs arbitrary: ys) (auto split: option.splits)

subsection \<open>\<^verbatim>\<open>int(str(n)) == n\<close> and splitting a canonical string\<close>

lemma digit_char_props:
  "d < 10 \<Longrightarrow> is_digit (digit_char d) \<and> digit_val (digit_char d) = int d"
proof -
  assume "d < 10"
  then have "d \<in> {0, 1, 2, 3, 4, 5, 6, 7, 8, 9}" by auto
  then show ?thesis
    by (auto simp: is_digit_def digit_val_def digit_char_def)
qed

lemma is_digit_not_space: "is_digit c \<Longrightarrow> \<not> is_int_space c"
  by (auto simp: is_digit_def is_int_space_def)

lemma is_digit_not_special:
  "is_digit c \<Longrightarrow> c \<noteq> CHR ''.'' \<and> c \<noteq> CHR ''+'' \<and> c \<noteq> CHR ''-'' \<and> c \<noteq> CHR ''_''"
  by (auto simp: is_digit_def)

lemma digits_of_all_digits: "list_all is_digit (digits_of n)"
proof (induction n rule: digits_of.induct)
  case (1 n)
  show ?case
  proof (cases "n < 10")
    case True
    then show ?thesis by (simp add: digits_of.simps [of n] digit_char_props)
  next
    case False
    with 1 show ?thesis by (simp add: digits_of.simps [of n] digit_char_props)
  qed
qed

lemma digits_of_nonempty: "digits_of n \<noteq> []"
  by (cases "n < 10") (simp_all add: digits_of.simps [of n])

lemma parse_digits_all_digits:
  "list_all is_digit ds \<Longrightarrow> parse_digits acc ds = Some (digits_value acc ds)"
  by (induction ds arbitrary: acc) (simp_all add: digits_value_def)

lemma digits_value_digits_of: "digits_value 0 (digits_of n) = int n"
proof (induction n rule: digits_of.induct)
  case (1 n)
  show ?case
  proof (cases "n < 10")
    case True
    then show ?thesis by (simp add: digits_of.simps [of n] digits_value_def digit_char_props)
  next
    case False
    then have "digits_value 0 (digits_of (n div 10)) = int (n div 10)" using 1 by simp
    with False show ?thesis
      by (simp add: digits_of.simps [of n] digits_value_def digit_char_props zdiv_int zmod_int)
  qed
qed

lemma parse_unsigned_all_digits:
  "list_all is_digit ds \<Longrightarrow> ds \<noteq> [] \<Longrightarrow> parse_unsigned ds = Some (digits_value 0 ds)"
  by (cases ds) (simp_all add: parse_unsigned_def parse_digits_all_digits digits_value_def)

lemma int_strip_all_digits: "list_all is_digit ds \<Longrightarrow> int_strip ds = ds"
proof (cases ds)
  case Nil
  then show ?thesis by (simp add: int_strip_def)
next
  case (Cons d ds')
  assume a: "list_all is_digit ds"
  with Cons have "\<not> is_int_space d" by (simp add: is_digit_not_space)
  with Cons have 1: "dropWhile is_int_space ds = ds" by simp
  from Cons have ne: "rev ds \<noteq> []" by simp
  from a have "is_digit (last ds)" using Cons by (metis last_in_set list.distinct(1) list_all_iff)
  then have "\<not> is_int_space (hd (rev ds))" using ne by (simp add: hd_rev is_digit_not_space)
  then have "dropWhile is_int_space (rev ds) = rev ds" using ne by (cases "rev ds") auto
  with 1 show ?thesis by (simp add: int_strip_def)
qed

lemma py_int_digits_of: "py_int (digits_of n) = Some (int n)"
proof -
  have d: "list_all is_digit (digits_of n)" by (rule digits_of_all_digits)
  obtain c cs where cs: "digits_of n = c # cs"
    using digits_of_nonempty by (cases "digits_of n") auto
  with d have "is_digit c" by simp
  then have "c \<noteq> CHR ''+''" "c \<noteq> CHR ''-''" using is_digit_not_special by auto
  then have "py_int (digits_of n) = parse_unsigned (digits_of n)"
    using cs int_strip_all_digits [OF d] by (simp add: py_int_def)
  then show ?thesis
    using parse_unsigned_all_digits [OF d digits_of_nonempty] digits_value_digits_of by simp
qed

lemma py_int_py_str: "0 \<le> n \<Longrightarrow> py_int (py_str n) = Some n"
  by (simp add: py_str_def py_int_digits_of)

lemma py_str_no_dot: "0 \<le> n \<Longrightarrow> CHR ''.'' \<notin> set (py_str n)"
  using digits_of_all_digits [of "nat n"] is_digit_not_special
  by (auto simp: py_str_def list_all_iff)

lemma py_str_3_4: "py_str 3 = ''3''" "py_str 4 = ''4''"
  by (simp_all add: py_str_def digits_of.simps digit_char_def)

lemma split_on_no_sep: "c \<notin> set xs \<Longrightarrow> split_on c xs = [xs]"
  by (induction xs) auto

lemma split_on_append: "c \<notin> set xs \<Longrightarrow> split_on c (xs @ c # ys) = xs # split_on c ys"
  by (induction xs) auto

lemma components_str2:
  "0 \<le> a \<Longrightarrow> 0 \<le> b \<Longrightarrow> components (py_str a @ ''.'' @ py_str b) = Some [a, b]"
  using split_on_append [of "CHR ''.''" "py_str a" "py_str b"]
  by (simp add: components_def py_str_no_dot split_on_no_sep py_int_py_str)

lemma components_str3:
  "0 \<le> a \<Longrightarrow> 0 \<le> b \<Longrightarrow> 0 \<le> c \<Longrightarrow>
   components ((py_str a @ ''.'' @ py_str b) @ ''.'' @ py_str c) = Some [a, b, c]"
  using split_on_append [of "CHR ''.''" "py_str a" "py_str b @ ''.'' @ py_str c"]
    split_on_append [of "CHR ''.''" "py_str b" "py_str c"]
  by (simp add: components_def py_str_no_dot split_on_no_sep py_int_py_str)

subsection \<open>Runs of programs\<close>

lemmas prog_simps = seq_def act_def ls_def print_def print_exn_def lift_def sys_exit_def
  catch_Exception_def try_finally_def is_Exception_def

lemmas build_simps = build_def build_generator_def windows_with_mingw_def build_tblgen_def
  build_copy_libstdcpp_def commandSucceeded_def runOrFail_def cleanupFiles_def

lemma run_extends_snd: "\<exists>ext. snd (run sys m tr) = tr @ ext"
proof (induction m arbitrary: tr)
  case (Act a k)
  from Act [OF rangeI] obtain ext
    where "snd (run sys (k (act_answer sys tr a)) (tr @ [EAct a (act_answer sys tr a)])) =
             (tr @ [EAct a (act_answer sys tr a)]) @ ext"
    by blast
  then show ?case by simp
next
  case (Ask q k)
  from Ask [OF rangeI] obtain ext
    where "snd (run sys (k (ask_answer sys tr q)) (tr @ [EAsk q (ask_answer sys tr q)])) =
             (tr @ [EAsk q (ask_answer sys tr q)]) @ ext"
    by blast
  then show ?case by simp
next
  case (Lst l k)
  from Lst [OF rangeI] obtain ext
    where "snd (run sys (k (lst_answer sys tr l)) (tr @ [ELst l (lst_answer sys tr l)])) =
             (tr @ [ELst l (lst_answer sys tr l)]) @ ext"
    by blast
  then show ?case by simp
next
  case (Spawn s k)
  from Spawn [OF rangeI] obtain ext
    where "snd (run sys (k (spawn_answer sys tr s)) (tr @ [ESpawn s (spawn_answer sys tr s)])) =
             (tr @ [ESpawn s (spawn_answer sys tr s)]) @ ext"
    by blast
  then show ?case by simp
next
  case (Out s m)
  from Out [of "tr @ [EOut s]"] obtain ext
    where "snd (run sys m (tr @ [EOut s])) = (tr @ [EOut s]) @ ext"
    by blast
  then show ?case by simp
qed simp_all

lemma run_extends: "run sys m tr = (r, tr') \<Longrightarrow> \<exists>ext. tr' = tr @ ext"
  using run_extends_snd [of sys m tr] by simp

lemma run_bind:
  "run sys (bind m f) tr =
     (case run sys m tr of
        (Returned x, tr') \<Rightarrow> run sys (f x) tr'
      | (Raised e, tr') \<Rightarrow> (Raised e, tr')
      | (Hangs, tr') \<Rightarrow> (Hangs, tr'))"
  by (induction m arbitrary: tr) auto

lemma build_first_action:
  "\<exists>r ext. run sys (build h version buildType installationRoot showProgress cleanup) [] =
     (r, EAct (MakeDirs (cwd h @ ''/llvm-src/build''))
              (act_answer sys [] (MakeDirs (cwd h @ ''/llvm-src/build''))) # ext)"
proof -
  obtain rest where b: "build h version buildType installationRoot showProgress cleanup =
      bind (act (MakeDirs (cwd h @ ''/llvm-src/build''))) rest"
    by (simp add: build_def Let_def seq_def)
  let ?e = "EAct (MakeDirs (cwd h @ ''/llvm-src/build''))
              (act_answer sys [] (MakeDirs (cwd h @ ''/llvm-src/build'')))"
  obtain r tr' where r: "run sys (bind (act (MakeDirs (cwd h @ ''/llvm-src/build''))) rest) [] = (r, tr')"
    by (cases "run sys (bind (act (MakeDirs (cwd h @ ''/llvm-src/build''))) rest) []") auto
  then have "run sys (bind (case act_answer sys [] (MakeDirs (cwd h @ ''/llvm-src/build'')) of
       Inl m \<Rightarrow> Raise (LibraryError m) | Inr u \<Rightarrow> Done ()) rest) [?e] = (r, tr')"
    by (simp add: act_def)
  from run_extends [OF this] obtain ext where "tr' = [?e] @ ext" by blast
  with r b show ?thesis by auto
qed

section \<open>The claims\<close>

subsection \<open>Three-component inputs below 3.4.1\<close>

text \<open>
  Claim C1: a three-component input is rejected unless the version it denotes is at least
  3.4.1. The source's own comment says that 3.4.1 is the first version with a revision
  number, but its test looks at major and minor only. At the input \<^verbatim>\<open>3.4.0\<close>, three
  non-negative components that denote a version below 3.4.1, the parser returns a version
  object.
\<close>
theorem fromVersionString_accepts_3_4_0:
  "components ''3.4.0'' = Some [3, 4, 0]
   \<and> ver_less (3, 4, Some 0) (3, 4, Some 1)
   \<and> fromVersionString ''Linux'' ''3.4.0'' =
       Inr (Some \<lparr>major = 3, minor = 4, revision = Some 0, extension = ''.src.tar.gz'',
                  tarballs = [(''llvm'', Some ''llvm''), (''clang'', Some ''cfe''),
                              (''compiler-rt'', Some ''compiler-rt''), (''libcxx'', None)]\<rparr>)"
  by (simp add: eval_simps ver_less_def init_simps)

subsection \<open>Which inputs are accepted\<close>

text \<open>
  Claim C2, as stated, lists the conditions for acceptance without the rule for the
  three-component form. The input \<^verbatim>\<open>2.6.1\<close> meets every listed condition and is
  rejected (the repository's tests expect that rejection).
\<close>
theorem claimed_accepts_2_6_1_rejected:
  "components ''2.6.1'' = Some [2, 6, 1] \<and> claimed_accepts ''2.6.1''
   \<and> fromVersionString ''Linux'' ''2.6.1'' = Inr None \<and> \<not> accepts ''Linux'' ''2.6.1''"
  by (simp add: eval_simps claimed_accepts_def ver_le_def ver_less_def)

text \<open>
  Claim C2, amended: for every input that does not denote 3.4.0, the parser accepts
  exactly when the input splits into two or three integer components, all non-negative,
  the version is at least 2.6, the two-component form is used only up to 3.4 and the
  three-component form only from 3.4.1 on; the nine listed examples are rejected and
  accepted as stated.
\<close>

theorem fromVersionString_accepts_iff:
  "(components s \<noteq> Some [3, 4, 0] \<longrightarrow> (accepts p s \<longleftrightarrow> amended_accepts s))
   \<and> \<not> accepts p ''2.5'' \<and> \<not> accepts p ''3.4.1.2'' \<and> \<not> accepts p ''-3.7.0''
   \<and> \<not> accepts p ''hg'' \<and> \<not> accepts p ''3.''
   \<and> accepts p ''3.4'' \<and> accepts p ''3.4.1'' \<and> accepts p ''2.6'' \<and> accepts p ''3.5.0''"
proof -
  have general: "accepts p s \<longleftrightarrow> amended_accepts s" if ne: "components s \<noteq> Some [3, 4, 0]"
  proof (cases s rule: components_shape)
    case (two a b)
    then show ?thesis
      by (auto simp: accepts_def fromVersionString_two amended_accepts_def ver_le_def ver_less_def)
  next
    case (three a b c)
    with ne have "\<not> (a = 3 \<and> b = 4 \<and> c = 0)" by auto
    with three show ?thesis
      by (auto simp: accepts_def fromVersionString_three amended_accepts_def ver_le_def ver_less_def)
  next
    case other
    then have r: "fromVersionString p s = Inr None" by (rule fromVersionString_other)
    from other have "amended_accepts s = False"
      by (auto simp: amended_accepts_def split: option.splits list.splits)
    with r show ?thesis by (simp add: accepts_def)
  qed
  have examples: "\<not> accepts p ''2.5'' \<and> \<not> accepts p ''3.4.1.2'' \<and> \<not> accepts p ''-3.7.0''
   \<and> \<not> accepts p ''hg'' \<and> \<not> accepts p ''3.''
   \<and> accepts p ''3.4'' \<and> accepts p ''3.4.1'' \<and> accepts p ''2.6'' \<and> accepts p ''3.5.0''"
    by (simp add: eval_simps)
  from general examples show ?thesis by blast
qed

theorem fromVersionString_accepts_iff_witness:
  "components ''3.4.1'' \<noteq> Some [3, 4, 0] \<and> accepts ''Linux'' ''3.4.1'' \<and> amended_accepts ''3.4.1''
   \<and> components ''3.5'' \<noteq> Some [3, 4, 0] \<and> \<not> accepts ''Linux'' ''3.5'' \<and> \<not> amended_accepts ''3.5''"
proof -
  have 1: "components ''3.4.1'' \<noteq> Some [3, 4, 0]" and 2: "components ''3.5'' \<noteq> Some [3, 4, 0]"
    by (simp_all add: eval_simps)
  have 3: "amended_accepts ''3.4.1''" and 4: "\<not> amended_accepts ''3.5''"
    by (simp_all add: amended_accepts_def eval_simps ver_le_def ver_less_def)
  from 1 2 3 4 fromVersionString_accepts_iff [of "''3.4.1''" "''Linux''"]
    fromVersionString_accepts_iff [of "''3.5''" "''Linux''"]
  show ?thesis by blast
qed

subsection \<open>Round trip through the canonical string\<close>

text \<open>
  Claim C3: for every accepted input, parsing the canonical string of the parsed version
  gives that version again (equal in major, minor and revision, and so in the derived
  fields); the canonical string is major.minor without a revision and
  major.minor.revision with one.
\<close>
theorem fromVersionString_str_roundtrip:
  assumes "fromVersionString p s = Inr (Some v)"
  shows "fromVersionString p (str_version v) = Inr (Some v)
       \<and> str_version v =
           (case revision v of
              None \<Rightarrow> py_str (major v) @ ''.'' @ py_str (minor v)
            | Some r \<Rightarrow> py_str (major v) @ ''.'' @ py_str (minor v) @ ''.'' @ py_str r)"
proof
  from fromVersionString_Some [OF assms]
  show "fromVersionString p (str_version v) = Inr (Some v)"
  proof (elim disjE exE conjE)
    fix a b
    assume h: "v = init p a b None" "0 \<le> a" "0 \<le> b" "\<not> (a < 2 \<or> (a = 2 \<and> b < 6))"
      "\<not> (a > 3 \<or> (a = 3 \<and> b > 4))"
    then have "str_version v = py_str a @ ''.'' @ py_str b"
      by (simp add: str_version_def init_fields)
    with h show ?thesis
      using fromVersionString_two [OF components_str2 [of a b], of p] by auto
  next
    fix a b c
    assume h: "v = init p a b (Some c)" "0 \<le> a" "0 \<le> b" "0 \<le> c"
      "\<not> (a < 3 \<or> (a = 3 \<and> b < 4))"
    then have "str_version v = (py_str a @ ''.'' @ py_str b) @ ''.'' @ py_str c"
      by (simp add: str_version_def init_fields)
    with h show ?thesis
      using fromVersionString_three [OF components_str3 [of a b c], of p] by auto
  qed
  show "str_version v =
           (case revision v of
              None \<Rightarrow> py_str (major v) @ ''.'' @ py_str (minor v)
            | Some r \<Rightarrow> py_str (major v) @ ''.'' @ py_str (minor v) @ ''.'' @ py_str r)"
    by (simp add: str_version_def split: option.splits)
qed

theorem fromVersionString_str_roundtrip_witness:
  "fromVersionString ''Linux'' ''+3.04'' = Inr (Some (init ''Linux'' 3 4 None))
   \<and> str_version (init ''Linux'' 3 4 None) = ''3.4''
   \<and> fromVersionString ''Linux'' ''3.4'' = Inr (Some (init ''Linux'' 3 4 None))
   \<and> fromVersionString ''Linux'' ''3.4.1'' = Inr (Some (init ''Linux'' 3 4 (Some 1)))
   \<and> str_version (init ''Linux'' 3 4 (Some 1)) = ''3.4.1''"
proof -
  have p: "fromVersionString ''Linux'' ''+3.04'' = Inr (Some (init ''Linux'' 3 4 None))"
    by (simp add: eval_simps)
  have s: "str_version (init ''Linux'' 3 4 None) = ''3.4''"
    by (simp add: str_version_def init_fields py_str_3_4)
  have q: "fromVersionString ''Linux'' ''3.4.1'' = Inr (Some (init ''Linux'' 3 4 (Some 1)))"
    by (simp add: eval_simps)
  have t: "str_version (init ''Linux'' 3 4 (Some 1)) = ''3.4.1''"
    by (simp add: str_version_def init_fields py_str_def digits_of.simps digit_char_def)
  from fromVersionString_str_roundtrip [OF p]
  have "fromVersionString ''Linux'' (str_version (init ''Linux'' 3 4 None)) =
          Inr (Some (init ''Linux'' 3 4 None))"
    by (rule conjunct1)
  then have r: "fromVersionString ''Linux'' ''3.4'' = Inr (Some (init ''Linux'' 3 4 None))"
    by (simp only: s)
  from p s r q t show ?thesis by blast
qed

subsection \<open>Archive extension\<close>

text \<open>
  Claim C4: for every parsed version the extension is \<^verbatim>\<open>.tgz\<close> for 2.7 to 2.9,
  \<^verbatim>\<open>.tar.gz\<close> for 2.6 and 3.0, \<^verbatim>\<open>.src.tar.gz\<close> for 3.1 to 3.4.x and \<^verbatim>\<open>.src.tar.xz\<close>
  from 3.5.0 on.
\<close>
theorem extension_bands:
  assumes "fromVersionString p s = Inr (Some v)"
  shows "(major v = 2 \<and> 7 \<le> minor v \<and> minor v \<le> 9 \<longrightarrow> extension v = ''.tgz'')
       \<and> ((major v = 2 \<and> minor v = 6) \<or> (major v = 3 \<and> minor v = 0) \<longrightarrow>
            extension v = ''.tar.gz'')
       \<and> (major v = 3 \<and> 1 \<le> minor v \<and> minor v \<le> 4 \<longrightarrow> extension v = ''.src.tar.gz'')
       \<and> (ver_le (3, 5, Some 0) (version_of v) \<longrightarrow> extension v = ''.src.tar.xz'')"
  using assms
  by (elim parsed_cases) (auto simp: init_fields init_extension ver_simps)

theorem extension_bands_witness:
  "fromVersionString ''Linux'' ''2.9'' = Inr (Some (init ''Linux'' 2 9 None))
   \<and> extension (init ''Linux'' 2 9 None) = ''.tgz''
   \<and> fromVersionString ''Linux'' ''3.0'' = Inr (Some (init ''Linux'' 3 0 None))
   \<and> extension (init ''Linux'' 3 0 None) = ''.tar.gz''
   \<and> fromVersionString ''Linux'' ''3.4.2'' = Inr (Some (init ''Linux'' 3 4 (Some 2)))
   \<and> extension (init ''Linux'' 3 4 (Some 2)) = ''.src.tar.gz''
   \<and> fromVersionString ''Linux'' ''3.5.0'' = Inr (Some (init ''Linux'' 3 5 (Some 0)))
   \<and> extension (init ''Linux'' 3 5 (Some 0)) = ''.src.tar.xz''"
proof -
  have p1: "fromVersionString ''Linux'' ''2.9'' = Inr (Some (init ''Linux'' 2 9 None))"
    and p2: "fromVersionString ''Linux'' ''3.0'' = Inr (Some (init ''Linux'' 3 0 None))"
    and p3: "fromVersionString ''Linux'' ''3.4.2'' = Inr (Some (init ''Linux'' 3 4 (Some 2)))"
    and p4: "fromVersionString ''Linux'' ''3.5.0'' = Inr (Some (init ''Linux'' 3 5 (Some 0)))"
    by (simp_all add: eval_simps)
  from extension_bands [OF p1] have e1: "extension (init ''Linux'' 2 9 None) = ''.tgz''"
    by (simp add: init_fields)
  from extension_bands [OF p2] have e2: "extension (init ''Linux'' 3 0 None) = ''.tar.gz''"
    by (simp add: init_fields)
  from extension_bands [OF p3] have e3: "extension (init ''Linux'' 3 4 (Some 2)) = ''.src.tar.gz''"
    by (simp add: init_fields)
  from extension_bands [OF p4] have e4: "extension (init ''Linux'' 3 5 (Some 0)) = ''.src.tar.xz''"
    by (simp add: init_fields ver_simps)
  from p1 p2 p3 p4 e1 e2 e3 e4 show ?thesis by blast
qed

subsection \<open>The front-end archive\<close>

text \<open>
  Claim C5, as stated, says that the base name of the front-end archive changes once, at a
  single threshold version. In the code it is \<^verbatim>\<open>clang\<close> for 3.2, \<^verbatim>\<open>cfe\<close> for 3.3,
  \<^verbatim>\<open>clang\<close> again for 3.4 and \<^verbatim>\<open>cfe\<close> for 3.5.0, as the source's comment
  describes, so no threshold with two names exists.
\<close>
theorem clang_basename_no_single_threshold:
  "fromVersionString ''Linux'' ''3.2'' = Inr (Some (init ''Linux'' 3 2 None))
   \<and> dict_get (tarballs (init ''Linux'' 3 2 None)) ''clang'' = Inr (Some ''clang'')
   \<and> fromVersionString ''Linux'' ''3.3'' = Inr (Some (init ''Linux'' 3 3 None))
   \<and> dict_get (tarballs (init ''Linux'' 3 3 None)) ''clang'' = Inr (Some ''cfe'')
   \<and> fromVersionString ''Linux'' ''3.4'' = Inr (Some (init ''Linux'' 3 4 None))
   \<and> dict_get (tarballs (init ''Linux'' 3 4 None)) ''clang'' = Inr (Some ''clang'')
   \<and> fromVersionString ''Linux'' ''3.5.0'' = Inr (Some (init ''Linux'' 3 5 (Some 0)))
   \<and> dict_get (tarballs (init ''Linux'' 3 5 (Some 0))) ''clang'' = Inr (Some ''cfe'')
   \<and> \<not> (\<exists>t n1 n2. \<forall>s v. fromVersionString ''Linux'' s = Inr (Some v) \<longrightarrow>
         (ver_less (version_of v) t \<longrightarrow> dict_get (tarballs v) ''clang'' = Inr (Some n1))
       \<and> (\<not> ver_less (version_of v) t \<longrightarrow> dict_get (tarballs v) ''clang'' = Inr (Some n2)))"
proof -
  have p32: "fromVersionString ''Linux'' ''3.2'' = Inr (Some (init ''Linux'' 3 2 None))"
    and p33: "fromVersionString ''Linux'' ''3.3'' = Inr (Some (init ''Linux'' 3 3 None))"
    and p34: "fromVersionString ''Linux'' ''3.4'' = Inr (Some (init ''Linux'' 3 4 None))"
    and p350: "fromVersionString ''Linux'' ''3.5.0'' = Inr (Some (init ''Linux'' 3 5 (Some 0)))"
    by (simp_all add: eval_simps)
  have c32: "dict_get (tarballs (init ''Linux'' 3 2 None)) ''clang'' = Inr (Some ''clang'')"
    and c33: "dict_get (tarballs (init ''Linux'' 3 3 None)) ''clang'' = Inr (Some ''cfe'')"
    and c34: "dict_get (tarballs (init ''Linux'' 3 4 None)) ''clang'' = Inr (Some ''clang'')"
    and c350: "dict_get (tarballs (init ''Linux'' 3 5 (Some 0))) ''clang'' = Inr (Some ''cfe'')"
    by (simp_all add: init_clang)
  have no: "\<not> (\<exists>t n1 n2. \<forall>s v. fromVersionString ''Linux'' s = Inr (Some v) \<longrightarrow>
         (ver_less (version_of v) t \<longrightarrow> dict_get (tarballs v) ''clang'' = Inr (Some n1))
       \<and> (\<not> ver_less (version_of v) t \<longrightarrow> dict_get (tarballs v) ''clang'' = Inr (Some n2)))"
  proof
    assume "\<exists>t n1 n2. \<forall>s v. fromVersionString ''Linux'' s = Inr (Some v) \<longrightarrow>
         (ver_less (version_of v) t \<longrightarrow> dict_get (tarballs v) ''clang'' = Inr (Some n1))
       \<and> (\<not> ver_less (version_of v) t \<longrightarrow> dict_get (tarballs v) ''clang'' = Inr (Some n2))"
    then obtain t n1 n2 where h: "\<And>s v. fromVersionString ''Linux'' s = Inr (Some v) \<Longrightarrow>
         (ver_less (version_of v) t \<longrightarrow> dict_get (tarballs v) ''clang'' = Inr (Some n1))
       \<and> (\<not> ver_less (version_of v) t \<longrightarrow> dict_get (tarballs v) ''clang'' = Inr (Some n2))"
      by blast
    obtain ta tb tr where t: "t = (ta, tb, tr)" by (cases t) auto
    show False
    proof (cases "ver_less (3, 4, None) t")
      case True
      then have "ver_less (3, 2, None) t" "ver_less (3, 3, None) t"
        by (auto simp: t ver_less_def)
      with h [OF p32] h [OF p33]
      have e1: "dict_get (tarballs (init ''Linux'' 3 2 None)) ''clang'' = Inr (Some n1)"
        and e2: "dict_get (tarballs (init ''Linux'' 3 3 None)) ''clang'' = Inr (Some n1)"
        by (simp_all add: version_of_def init_fields)
      from e1 c32 have "n1 = ''clang''" by simp
      moreover from e2 c33 have "n1 = ''cfe''" by simp
      ultimately show False by simp
    next
      case False
      then have "\<not> ver_less (3, 5, Some 0) t"
        by (auto simp: t ver_less_def)
      with False h [OF p34] h [OF p350]
      have e3: "dict_get (tarballs (init ''Linux'' 3 4 None)) ''clang'' = Inr (Some n2)"
        and e4: "dict_get (tarballs (init ''Linux'' 3 5 (Some 0))) ''clang'' = Inr (Some n2)"
        by (simp_all add: version_of_def init_fields)
      from e3 c34 have "n2 = ''clang''" by simp
      moreover from e4 c350 have "n2 = ''cfe''" by simp
      ultimately show False by simp
    qed
  qed
  from p32 p33 p34 p350 c32 c33 c34 c350 no show ?thesis by blast
qed

text \<open>
  Claim C5, amended: for every parsed version the front-end role is present, with base name
  \<^verbatim>\<open>clang\<close> or \<^verbatim>\<open>cfe\<close>: \<^verbatim>\<open>clang\<close> for every version below 3.3 and for the
  two-component version 3.4, \<^verbatim>\<open>cfe\<close> for 3.3 and for every version from 3.4.1 on.
\<close>

theorem clang_basename_bands:
  assumes "fromVersionString p s = Inr (Some v)"
  shows "(dict_get (tarballs v) ''clang'' = Inr (Some ''clang'')
          \<or> dict_get (tarballs v) ''clang'' = Inr (Some ''cfe''))
       \<and> (ver_less (version_of v) (3, 3, None) \<longrightarrow>
            dict_get (tarballs v) ''clang'' = Inr (Some ''clang''))
       \<and> (version_of v = (3, 3, None) \<longrightarrow> dict_get (tarballs v) ''clang'' = Inr (Some ''cfe''))
       \<and> (version_of v = (3, 4, None) \<longrightarrow> dict_get (tarballs v) ''clang'' = Inr (Some ''clang''))
       \<and> (ver_le (3, 4, Some 1) (version_of v) \<longrightarrow>
            dict_get (tarballs v) ''clang'' = Inr (Some ''cfe''))"
  using assms
  by (elim parsed_cases) (auto simp: init_fields init_clang ver_simps)

theorem clang_basename_bands_witness:
  "fromVersionString ''Linux'' ''2.6'' = Inr (Some (init ''Linux'' 2 6 None))
   \<and> ver_less (version_of (init ''Linux'' 2 6 None)) (3, 3, None)
   \<and> dict_get (tarballs (init ''Linux'' 2 6 None)) ''clang'' = Inr (Some ''clang'')
   \<and> fromVersionString ''Linux'' ''3.4.1'' = Inr (Some (init ''Linux'' 3 4 (Some 1)))
   \<and> ver_le (3, 4, Some 1) (version_of (init ''Linux'' 3 4 (Some 1)))
   \<and> dict_get (tarballs (init ''Linux'' 3 4 (Some 1))) ''clang'' = Inr (Some ''cfe'')"
proof -
  have p1: "fromVersionString ''Linux'' ''2.6'' = Inr (Some (init ''Linux'' 2 6 None))"
    and p2: "fromVersionString ''Linux'' ''3.4.1'' = Inr (Some (init ''Linux'' 3 4 (Some 1)))"
    by (simp_all add: eval_simps)
  have o1: "ver_less (version_of (init ''Linux'' 2 6 None)) (3, 3, None)"
    and o2: "ver_le (3, 4, Some 1) (version_of (init ''Linux'' 3 4 (Some 1)))"
    by (simp_all add: ver_simps init_fields)
  from clang_basename_bands [OF p1] o1
  have n1: "dict_get (tarballs (init ''Linux'' 2 6 None)) ''clang'' = Inr (Some ''clang'')"
    by blast
  from clang_basename_bands [OF p2] o2
  have n2: "dict_get (tarballs (init ''Linux'' 3 4 (Some 1))) ''clang'' = Inr (Some ''cfe'')"
    by blast
  from p1 p2 o1 o2 n1 n2 show ?thesis by blast
qed

subsection \<open>The runtime archive\<close>

text \<open>
  Claim C6: for every parsed version the compiler-rt role is absent below 3.1, present
  from 3.1 on when the host is not Windows, and absent on Windows whatever the version.
\<close>
theorem compiler_rt_presence:
  assumes "fromVersionString p s = Inr (Some v)"
  shows "(ver_less (version_of v) (3, 1, None) \<longrightarrow> role_absent v ''compiler-rt'')
       \<and> (ver_le (3, 1, None) (version_of v) \<and> p \<noteq> ''Windows'' \<longrightarrow>
            role_present v ''compiler-rt''
            \<and> dict_get (tarballs v) ''compiler-rt'' = Inr (Some ''compiler-rt''))
       \<and> (p = ''Windows'' \<longrightarrow> role_absent v ''compiler-rt'')"
  using assms
  by (elim parsed_cases)
     (auto simp: init_fields init_compiler_rt ver_simps role_absent_def role_present_def)

theorem compiler_rt_presence_witness:
  "fromVersionString ''Linux'' ''3.0'' = Inr (Some (init ''Linux'' 3 0 None))
   \<and> ver_less (version_of (init ''Linux'' 3 0 None)) (3, 1, None)
   \<and> role_absent (init ''Linux'' 3 0 None) ''compiler-rt''
   \<and> fromVersionString ''Linux'' ''3.1'' = Inr (Some (init ''Linux'' 3 1 None))
   \<and> ver_le (3, 1, None) (version_of (init ''Linux'' 3 1 None)) \<and> ''Linux'' \<noteq> ''Windows''
   \<and> role_present (init ''Linux'' 3 1 None) ''compiler-rt''
   \<and> fromVersionString ''Windows'' ''3.9.0'' = Inr (Some (init ''Windows'' 3 9 (Some 0)))
   \<and> role_absent (init ''Windows'' 3 9 (Some 0)) ''compiler-rt''"
proof -
  have p1: "fromVersionString ''Linux'' ''3.0'' = Inr (Some (init ''Linux'' 3 0 None))"
    and p2: "fromVersionString ''Linux'' ''3.1'' = Inr (Some (init ''Linux'' 3 1 None))"
    and p3: "fromVersionString ''Windows'' ''3.9.0'' = Inr (Some (init ''Windows'' 3 9 (Some 0)))"
    by (simp_all add: eval_simps)
  have o1: "ver_less (version_of (init ''Linux'' 3 0 None)) (3, 1, None)"
    and o2: "ver_le (3, 1, None) (version_of (init ''Linux'' 3 1 None))"
    and o3: "''Linux'' \<noteq> ''Windows''"
    by (simp_all add: ver_simps init_fields)
  from compiler_rt_presence [OF p1] o1
  have r1: "role_absent (init ''Linux'' 3 0 None) ''compiler-rt''" by blast
  from compiler_rt_presence [OF p2] o2 o3
  have r2: "role_present (init ''Linux'' 3 1 None) ''compiler-rt''" by blast
  from compiler_rt_presence [OF p3]
  have r3: "role_absent (init ''Windows'' 3 9 (Some 0)) ''compiler-rt''" by blast
  from p1 p2 p3 o1 o2 o3 r1 r2 r3 show ?thesis by blast
qed

subsection \<open>The standard-library archive\<close>

text \<open>
  Claim C7: for every parsed version the libcxx role is present exactly when the host is
  Darwin and the version is at least 3.3, and absent in every other case.
\<close>
theorem libcxx_presence:
  assumes "fromVersionString p s = Inr (Some v)"
  shows "(role_present v ''libcxx'' \<longleftrightarrow> p = ''Darwin'' \<and> ver_le (3, 3, None) (version_of v))
       \<and> (role_absent v ''libcxx'' \<longleftrightarrow> \<not> (p = ''Darwin'' \<and> ver_le (3, 3, None) (version_of v)))
       \<and> (role_present v ''libcxx'' \<longrightarrow> dict_get (tarballs v) ''libcxx'' = Inr (Some ''libcxx''))"
  using assms
  by (elim parsed_cases)
     (auto simp: init_fields init_libcxx ver_simps role_absent_def role_present_def)

theorem libcxx_presence_witness:
  "fromVersionString ''Darwin'' ''3.3'' = Inr (Some (init ''Darwin'' 3 3 None))
   \<and> ver_le (3, 3, None) (version_of (init ''Darwin'' 3 3 None))
   \<and> role_present (init ''Darwin'' 3 3 None) ''libcxx''
   \<and> dict_get (tarballs (init ''Darwin'' 3 3 None)) ''libcxx'' = Inr (Some ''libcxx'')
   \<and> fromVersionString ''Darwin'' ''3.2'' = Inr (Some (init ''Darwin'' 3 2 None))
   \<and> \<not> ver_le (3, 3, None) (version_of (init ''Darwin'' 3 2 None))
   \<and> role_absent (init ''Darwin'' 3 2 None) ''libcxx''
   \<and> fromVersionString ''Linux'' ''3.9.0'' = Inr (Some (init ''Linux'' 3 9 (Some 0)))
   \<and> role_absent (init ''Linux'' 3 9 (Some 0)) ''libcxx''"
proof -
  have p1: "fromVersionString ''Darwin'' ''3.3'' = Inr (Some (init ''Darwin'' 3 3 None))"
    and p2: "fromVersionString ''Darwin'' ''3.2'' = Inr (Some (init ''Darwin'' 3 2 None))"
    and p3: "fromVersionString ''Linux'' ''3.9.0'' = Inr (Some (init ''Linux'' 3 9 (Some 0)))"
    by (simp_all add: eval_simps)
  have o1: "ver_le (3, 3, None) (version_of (init ''Darwin'' 3 3 None))"
    and o2: "\<not> ver_le (3, 3, None) (version_of (init ''Darwin'' 3 2 None))"
    and o3: "''Linux'' \<noteq> ''Darwin''"
    by (simp_all add: ver_simps init_fields)
  from libcxx_presence [OF p1] o1
  have r1: "role_present (init ''Darwin'' 3 3 None) ''libcxx''"
    and r1': "dict_get (tarballs (init ''Darwin'' 3 3 None)) ''libcxx'' = Inr (Some ''libcxx'')"
    by blast+
  from libcxx_presence [OF p2] o2
  have r2: "role_absent (init ''Darwin'' 3 2 None) ''libcxx''" by blast
  from libcxx_presence [OF p3] o3
  have r3: "role_absent (init ''Linux'' 3 9 (Some 0)) ''libcxx''" by blast
  from p1 p2 p3 o1 o2 r1 r1' r2 r3 show ?thesis by blast
qed

subsection \<open>File names and download addresses\<close>

text \<open>
  Claim C8: for every parsed version and every role present for it, the file name is the
  base name, a hyphen, the role's version string and the extension, and the address is
  \<^verbatim>\<open>http://llvm.org/releases/\<close>, the role's version string, a slash and the file name;
  the role's version string is the canonical string (major.minor, or major.minor.revision
  when there is a revision), except that compiler-rt and libcxx use \<^verbatim>\<open>3.4\<close> throughout
  the 3.4 series.
\<close>

theorem tarball_filename_and_url:
  assumes "fromVersionString p s = Inr (Some v)"
    and "dict_get (tarballs v) name = Inr (Some base)"
  shows "tarballFilename v name =
           Inr (Some (base @ ''-'' @ role_version_string v name @ extension v))
       \<and> tarballURL v name =
           Inr (Some (''http://llvm.org/releases/'' @ role_version_string v name @ ''/''
                      @ base @ ''-'' @ role_version_string v name @ extension v))"
proof -
  have "str_version v = canonical_string v"
    by (simp add: str_version_def canonical_string_def split: option.splits)
  then have "tarballVersionString v name = role_version_string v name"
    by (auto simp: tarballVersionString_def role_version_string_def py_str_3_4)
  with assms(2) show ?thesis
    by (simp add: tarballFilename_def tarballURL_def)
qed

theorem tarball_filename_and_url_witness:
  "fromVersionString ''Darwin'' ''3.4.2'' = Inr (Some (init ''Darwin'' 3 4 (Some 2)))
   \<and> dict_get (tarballs (init ''Darwin'' 3 4 (Some 2))) ''libcxx'' = Inr (Some ''libcxx'')
   \<and> tarballFilename (init ''Darwin'' 3 4 (Some 2)) ''libcxx'' = Inr (Some ''libcxx-3.4.src.tar.gz'')
   \<and> tarballURL (init ''Darwin'' 3 4 (Some 2)) ''libcxx'' =
       Inr (Some ''http://llvm.org/releases/3.4/libcxx-3.4.src.tar.gz'')
   \<and> dict_get (tarballs (init ''Darwin'' 3 4 (Some 2))) ''clang'' = Inr (Some ''cfe'')
   \<and> tarballFilename (init ''Darwin'' 3 4 (Some 2)) ''clang'' = Inr (Some ''cfe-3.4.2.src.tar.gz'')
   \<and> tarballURL (init ''Darwin'' 3 4 (Some 2)) ''clang'' =
       Inr (Some ''http://llvm.org/releases/3.4.2/cfe-3.4.2.src.tar.gz'')
   \<and> fromVersionString ''Linux'' ''3.9.1'' = Inr (Some (init ''Linux'' 3 9 (Some 1)))
   \<and> dict_get (tarballs (init ''Linux'' 3 9 (Some 1))) ''llvm'' = Inr (Some ''llvm'')
   \<and> tarballFilename (init ''Linux'' 3 9 (Some 1)) ''llvm'' = Inr (Some ''llvm-3.9.1.src.tar.xz'')
   \<and> tarballURL (init ''Linux'' 3 9 (Some 1)) ''llvm'' =
       Inr (Some ''http://llvm.org/releases/3.9.1/llvm-3.9.1.src.tar.xz'')
   \<and> fromVersionString ''Linux'' ''2.7'' = Inr (Some (init ''Linux'' 2 7 None))
   \<and> dict_get (tarballs (init ''Linux'' 2 7 None)) ''clang'' = Inr (Some ''clang'')
   \<and> tarballFilename (init ''Linux'' 2 7 None) ''clang'' = Inr (Some ''clang-2.7.tgz'')
   \<and> tarballURL (init ''Linux'' 2 7 None) ''clang'' =
       Inr (Some ''http://llvm.org/releases/2.7/clang-2.7.tgz'')"
proof -
  have p: "fromVersionString ''Darwin'' ''3.4.2'' = Inr (Some (init ''Darwin'' 3 4 (Some 2)))"
    and p': "fromVersionString ''Linux'' ''3.9.1'' = Inr (Some (init ''Linux'' 3 9 (Some 1)))"
    and p'': "fromVersionString ''Linux'' ''2.7'' = Inr (Some (init ''Linux'' 2 7 None))"
    by (simp_all add: eval_simps)
  have d1: "dict_get (tarballs (init ''Darwin'' 3 4 (Some 2))) ''libcxx'' = Inr (Some ''libcxx'')"
    by (simp add: init_libcxx)
  have d2: "dict_get (tarballs (init ''Darwin'' 3 4 (Some 2))) ''clang'' = Inr (Some ''cfe'')"
    by (simp add: init_clang)
  have d3: "dict_get (tarballs (init ''Linux'' 3 9 (Some 1))) ''llvm'' = Inr (Some ''llvm'')"
    by (simp add: init_tarballs)
  have d4: "dict_get (tarballs (init ''Linux'' 2 7 None)) ''clang'' = Inr (Some ''clang'')"
    by (simp add: init_clang)
  have s1: "role_version_string (init ''Darwin'' 3 4 (Some 2)) ''libcxx'' = ''3.4''"
    and s2: "role_version_string (init ''Darwin'' 3 4 (Some 2)) ''clang'' = ''3.4.2''"
    and s3: "role_version_string (init ''Linux'' 3 9 (Some 1)) ''llvm'' = ''3.9.1''"
    and s4: "role_version_string (init ''Linux'' 2 7 None) ''clang'' = ''2.7''"
    and e: "extension (init ''Darwin'' 3 4 (Some 2)) = ''.src.tar.gz''"
    and e': "extension (init ''Linux'' 3 9 (Some 1)) = ''.src.tar.xz''"
    and e'': "extension (init ''Linux'' 2 7 None) = ''.tgz''"
    by (simp_all add: role_version_string_def init_fields init_extension canonical_string_def
          py_str_def digits_of.simps digit_char_def)
  from tarball_filename_and_url [OF p d1]
  have f1: "tarballFilename (init ''Darwin'' 3 4 (Some 2)) ''libcxx'' = Inr (Some ''libcxx-3.4.src.tar.gz'')"
    and u1: "tarballURL (init ''Darwin'' 3 4 (Some 2)) ''libcxx'' =
       Inr (Some ''http://llvm.org/releases/3.4/libcxx-3.4.src.tar.gz'')"
    by (simp_all add: s1 e)
  from tarball_filename_and_url [OF p d2]
  have f2: "tarballFilename (init ''Darwin'' 3 4 (Some 2)) ''clang'' = Inr (Some ''cfe-3.4.2.src.tar.gz'')"
    and u2: "tarballURL (init ''Darwin'' 3 4 (Some 2)) ''clang'' =
       Inr (Some ''http://llvm.org/releases/3.4.2/cfe-3.4.2.src.tar.gz'')"
    by (simp_all add: s2 e)
  from tarball_filename_and_url [OF p' d3]
  have f3: "tarballFilename (init ''Linux'' 3 9 (Some 1)) ''llvm'' = Inr (Some ''llvm-3.9.1.src.tar.xz'')"
    and u3: "tarballURL (init ''Linux'' 3 9 (Some 1)) ''llvm'' =
       Inr (Some ''http://llvm.org/releases/3.9.1/llvm-3.9.1.src.tar.xz'')"
    by (simp_all add: s3 e')
  from tarball_filename_and_url [OF p'' d4]
  have f4: "tarballFilename (init ''Linux'' 2 7 None) ''clang'' = Inr (Some ''clang-2.7.tgz'')"
    and u4: "tarballURL (init ''Linux'' 2 7 None) ''clang'' =
       Inr (Some ''http://llvm.org/releases/2.7/clang-2.7.tgz'')"
    by (simp_all add: s4 e'')
  from p p' p'' d1 d2 d3 d4 f1 u1 f2 u2 f3 u3 f4 u4 show ?thesis by blast
qed

subsection \<open>Validation of the build type\<close>

text \<open>
  Claim C9, as stated, says that \<^verbatim>\<open>LLVMBuilder.build\<close> checks its \<^verbatim>\<open>buildType\<close> against
  the four allowed values before it does anything. The method has no such check: called
  with \<^verbatim>\<open>Bogus\<close> on a system where every command succeeds, it creates the build
  directory, runs \<^verbatim>\<open>cmake\<close> three times with that build type, reports nothing and
  returns the installation directory.
\<close>

theorem build_runs_with_invalid_buildType:
  "''Bogus'' \<notin> set CmakeBuildTypes
   \<and> run willing_system
        (build linux_host (init ''Linux'' 3 4 None) ''Bogus'' ''/usr/local/llvm'' True False) [] =
       (Returned ''/usr/local/llvm/3.4-Bogus'',
        [EAct (MakeDirs ''/work/llvm-src/build'') (Inr ()),
         ESpawn \<lparr>command = [''ninja'', ''--version''], spawn_cwd = None, spawn_env = None,
                 capture = True, stdin_pipe = False, text_mode = False\<rparr> (Exited 0 [] []),
         ESpawn \<lparr>command = [''cmake'', ''-DCMAKE_INSTALL_PREFIX=/usr/local/llvm/3.4-Bogus'',
                              ''-DCMAKE_BUILD_TYPE=Bogus'', ''-DLLVM_ENABLE_EH=true'',
                              ''-DLLVM_ENABLE_RTTI=true'', ''-DLLVM_INCLUDE_TESTS=false'',
                              ''-G'', ''Ninja'', ''..''],
                 spawn_cwd = Some ''/work/llvm-src/build'', spawn_env = None,
                 capture = False, stdin_pipe = True, text_mode = True\<rparr> (Exited 0 [] []),
         ESpawn \<lparr>command = [''cmake'', ''--build'', ''.''],
                 spawn_cwd = Some ''/work/llvm-src/build'', spawn_env = None,
                 capture = False, stdin_pipe = True, text_mode = True\<rparr> (Exited 0 [] []),
         ESpawn \<lparr>command = [''cmake'', ''--build'', ''.'', ''--target'', ''install''],
                 spawn_cwd = Some ''/work/llvm-src/build'', spawn_env = None,
                 capture = False, stdin_pipe = True, text_mode = True\<rparr> (Exited 0 [] [])])"
  by (simp add: CmakeBuildTypes_def build_simps prog_simps linux_host_def willing_system_def
        Let_def str_version_def init_fields py_str_3_4)

text \<open>
  Claim C9, amended: the check is made by the command-line entry point. For every parsed
  command line whose build type is not one of Release, Debug, RelWithDebInfo and
  MinSizeRel, on every host and system, the script prints the two lines of the error
  message and exits with status 1, before it parses the version and without any call
  that changes the system or starts a process.
\<close>

theorem main_rejects_invalid_buildtype:
  assumes "arg_buildtype a \<notin> {''Release'', ''Debug'', ''RelWithDebInfo'', ''MinSizeRel''}"
  shows "run sys (main h a) [] =
           (Raised (SystemExit 1),
            [EOut (Text (''Error: invalid build type '' @ [CHR 0x22] @ arg_buildtype a @ [CHR 0x22])),
             EOut (Text ''Valid build types: Release, Debug, RelWithDebInfo, MinSizeRel'')])
       \<and> exit_status (fst (run sys (main h a) [])) = Some 1
       \<and> \<not> list_ex is_side_effect (snd (run sys (main h a) []))"
proof -
  from assms have "arg_buildtype a \<notin> set CmakeBuildTypes" by (simp add: CmakeBuildTypes_def)
  then have "run sys (main h a) [] =
           (Raised (SystemExit 1),
            [EOut (Text (''Error: invalid build type '' @ [CHR 0x22] @ arg_buildtype a @ [CHR 0x22])),
             EOut (Text ''Valid build types: Release, Debug, RelWithDebInfo, MinSizeRel'')])"
    by (simp add: main_def prog_simps CmakeBuildTypes_def)
  then show ?thesis by (simp add: exit_status_def)
qed

theorem main_rejects_invalid_buildtype_witness:
  "''Bogus'' \<notin> {''Release'', ''Debug'', ''RelWithDebInfo'', ''MinSizeRel''}
   \<and> run willing_system
         (main linux_host \<lparr>opt_list = False, opt_remove = True, opt_install = False,
                           opt_no_cleanup = False, arg_version = ''3.4'',
                           arg_buildtype = ''Bogus''\<rparr>) [] =
       (Raised (SystemExit 1),
        [EOut (Text (''Error: invalid build type '' @ [CHR 0x22] @ ''Bogus'' @ [CHR 0x22])),
         EOut (Text ''Valid build types: Release, Debug, RelWithDebInfo, MinSizeRel'')])
   \<and> run willing_system
         (main linux_host \<lparr>opt_list = False, opt_remove = True, opt_install = False,
                           opt_no_cleanup = False, arg_version = ''3.4'',
                           arg_buildtype = ''Release''\<rparr>) [] =
       (Returned (),
        [EAct (RmTree ''/usr/local/llvm/3.4-Release'') (Inr ()),
         EOut (Text ''Removed `/usr/local/llvm/3.4-Release`.'')])"
proof -
  let ?a = "\<lparr>opt_list = False, opt_remove = True, opt_install = False,
             opt_no_cleanup = False, arg_version = ''3.4'', arg_buildtype = ''Bogus''\<rparr>"
  have h: "arg_buildtype ?a \<notin> {''Release'', ''Debug'', ''RelWithDebInfo'', ''MinSizeRel''}"
    by simp
  have b: "''Bogus'' \<notin> {''Release'', ''Debug'', ''RelWithDebInfo'', ''MinSizeRel''}"
    by simp
  from main_rejects_invalid_buildtype [OF h, of willing_system linux_host]
  have r1: "run willing_system (main linux_host ?a) [] =
       (Raised (SystemExit 1),
        [EOut (Text (''Error: invalid build type '' @ [CHR 0x22] @ ''Bogus'' @ [CHR 0x22])),
         EOut (Text ''Valid build types: Release, Debug, RelWithDebInfo, MinSizeRel'')])"
    by simp
  have r2: "run willing_system
         (main linux_host \<lparr>opt_list = False, opt_remove = True, opt_install = False,
                           opt_no_cleanup = False, arg_version = ''3.4'',
                           arg_buildtype = ''Release''\<rparr>) [] =
       (Returned (),
        [EAct (RmTree ''/usr/local/llvm/3.4-Release'') (Inr ()),
         EOut (Text ''Removed `/usr/local/llvm/3.4-Release`.'')])"
    by (simp add: main_def prog_simps CmakeBuildTypes_def linux_host_def willing_system_def
          removeLibraryVersion_def getInstallationDir_def eval_simps init_fields
          str_version_def py_str_3_4 Let_def)
  from b r1 r2 show ?thesis by blast
qed

subsection \<open>Totality and the invariants of a parsed version\<close>

text \<open>
  Claim C10: for every input string the parser returns (no exception leaves it), and every
  version object it returns has major at least 2, minor at least 6 when major is 2, minor
  and any present revision non-negative, and no revision exactly when the input had two
  components.
\<close>
theorem fromVersionString_total_and_invariant:
  "(\<exists>r. fromVersionString p s = Inr r)
   \<and> (\<forall>v. fromVersionString p s = Inr (Some v) \<longrightarrow>
         2 \<le> major v \<and> (major v = 2 \<longrightarrow> 6 \<le> minor v) \<and> 0 \<le> minor v
         \<and> (\<forall>r. revision v = Some r \<longrightarrow> 0 \<le> r)
         \<and> (revision v = None \<longleftrightarrow> length (split_on (CHR ''.'') s) = 2))"
proof (intro conjI allI impI)
  show "\<exists>r. fromVersionString p s = Inr r"
  proof (cases s rule: components_shape)
    case (two a b)
    then show ?thesis by (simp add: fromVersionString_two)
  next
    case (three a b c)
    then show ?thesis by (simp add: fromVersionString_three)
  next
    case other
    from fromVersionString_other [OF other] show ?thesis by simp
  qed
next
  fix v
  assume a: "fromVersionString p s = Inr (Some v)"
  from fromVersionString_Some [OF a]
  have f: "2 \<le> major v \<and> (major v = 2 \<longrightarrow> 6 \<le> minor v) \<and> 0 \<le> minor v
         \<and> (\<forall>r. revision v = Some r \<longrightarrow> 0 \<le> r)"
    by (auto simp: init_fields)
  from f show "2 \<le> major v" by simp
  from f show "6 \<le> minor v" if "major v = 2" using that by simp
  from f show "0 \<le> minor v" by simp
  from f show "0 \<le> r" if "revision v = Some r" for r using that by simp
  from fromVersionString_Some [OF a]
  show "revision v = None \<longleftrightarrow> length (split_on (CHR ''.'') s) = 2"
    by (auto simp: init_fields components_def dest: parse_components_length)
qed

theorem fromVersionString_total_and_invariant_witness:
  "fromVersionString ''Linux'' ''2.6'' = Inr (Some (init ''Linux'' 2 6 None))
   \<and> 2 \<le> major (init ''Linux'' 2 6 None) \<and> 6 \<le> minor (init ''Linux'' 2 6 None)
   \<and> revision (init ''Linux'' 2 6 None) = None \<and> length (split_on (CHR ''.'') ''2.6'') = 2
   \<and> fromVersionString ''Linux'' ''hg'' = Inr None
   \<and> fromVersionString ''Linux'' [] = Inr None"
proof -
  have p: "fromVersionString ''Linux'' ''2.6'' = Inr (Some (init ''Linux'' 2 6 None))"
    and q: "fromVersionString ''Linux'' ''hg'' = Inr None"
    and e: "fromVersionString ''Linux'' [] = Inr None"
    by (simp_all add: eval_simps)
  have m: "major (init ''Linux'' 2 6 None) = 2" by (simp add: init_fields)
  from fromVersionString_total_and_invariant [of "''Linux''" "''2.6''"] p m
  have i: "2 \<le> major (init ''Linux'' 2 6 None) \<and> 6 \<le> minor (init ''Linux'' 2 6 None)
     \<and> (revision (init ''Linux'' 2 6 None) = None \<longleftrightarrow> length (split_on (CHR ''.'') ''2.6'') = 2)"
    by blast
  have l: "length (split_on (CHR ''.'') ''2.6'') = 2" by simp
  from p q e i l show ?thesis by blast
qed

end
